theory Spec2Isabelle
  imports Main
begin

chapter \<open>Definitions\<close>

section \<open>Migration statement splitter (internal/storm/migrator.go)\<close>

text \<open>
  \<^verbatim>\<open>splitSQLStatements\<close> converts the migration text to a slice of runes and scans it
  once. A text is modelled as the list of its runes, a rune being a \<^typ>\<open>char\<close>; this
  covers the code points below 256, where \<^verbatim>\<open>unicode.IsSpace\<close> holds for the eight
  characters listed in \<open>isSpace\<close>.
\<close>

definition isSpace :: "char \<Rightarrow> bool" where
  "isSpace c \<longleftrightarrow>
     c \<in> set [CHR 0x09, CHR 0x0A, CHR 0x0B, CHR 0x0C, CHR 0x0D, CHR '' '', CHR 0x85, CHR 0xA0]"

text \<open>\<^verbatim>\<open>strings.TrimSpace\<close>: leading and trailing white space removed.\<close>

definition TrimSpace :: "string \<Rightarrow> string" where
  "TrimSpace s = rev (dropWhile isSpace (rev (dropWhile isSpace s)))"

text \<open>\<^verbatim>\<open>strings.HasPrefix\<close> and \<^verbatim>\<open>strings.HasSuffix\<close>.\<close>

definition HasPrefix :: "string \<Rightarrow> string \<Rightarrow> bool" where
  "HasPrefix s p \<longleftrightarrow> take (length p) s = p"

definition HasSuffix :: "string \<Rightarrow> string \<Rightarrow> bool" where
  "HasSuffix s p \<longleftrightarrow> length p \<le> length s \<and> drop (length s - length p) s = p"

text \<open>
  \<^verbatim>\<open>strings.Split(s, sep)\<close> for a separator of one character; the empty text gives
  one empty field.
\<close>

fun Split :: "string \<Rightarrow> char \<Rightarrow> string list" where
  "Split [] sep = [[]]"
| "Split (c # cs) sep =
     (if c = sep then [] # Split cs sep
      else (case Split cs sep of [] \<Rightarrow> [[c]] | l # ls \<Rightarrow> (c # l) # ls))"

text \<open>
  \<^verbatim>\<open>isOnlyComments\<close>: the loop over the lines returns false at the first line that,
  trimmed, is neither empty nor starts with \<^verbatim>\<open>--\<close>.
\<close>

definition isOnlyComments :: "string \<Rightarrow> bool" where
  "isOnlyComments stmt =
     list_all (\<lambda>line. let trimmed = TrimSpace line
                      in \<not> (trimmed \<noteq> [] \<and> \<not> HasPrefix trimmed ''--''))
       (Split stmt (CHR 0x0A))"

text \<open>
  The block that both the semicolon branch and the code after the loop run: trim the
  buffer, and append it to the statements unless it is empty or only comments.
\<close>

definition emit :: "string \<Rightarrow> string list \<Rightarrow> string list" where
  "emit current statements =
     (let stmt = TrimSpace current
      in if stmt \<noteq> [] \<and> \<not> isOnlyComments stmt then statements @ [stmt] else statements)"

text \<open>
  The scanning loop, with its three variables \<open>inDollarQuote\<close>, \<open>current\<close> and
  \<open>statements\<close>; the last argument is \<^verbatim>\<open>runes[i:]\<close>. The first branch consumes two
  runes, the others one.
\<close>

fun split_loop :: "bool \<Rightarrow> string \<Rightarrow> string list \<Rightarrow> string \<Rightarrow> string list" where
  "split_loop inDollarQuote current statements [] =
     (if current \<noteq> [] then emit current statements else statements)"
| "split_loop inDollarQuote current statements (c # rs) =
     (if c = CHR ''$'' \<and> rs \<noteq> [] \<and> hd rs = CHR ''$'' then
        (if \<not> inDollarQuote then split_loop True (current @ [c, hd rs]) statements (tl rs)
         else split_loop False (current @ [c, hd rs]) statements (tl rs))
      else if \<not> inDollarQuote \<and> c = CHR '';'' then
        split_loop inDollarQuote [] (emit (current @ [c]) statements) rs
      else split_loop inDollarQuote (current @ [c]) statements rs)"

definition splitSQLStatements :: "string \<Rightarrow> string list" where
  "splitSQLStatements sql = split_loop False [] [] sql"

text \<open>
  Vocabulary for the lemmas on the splitter. \<open>dollar_body\<close> holds for a text that has
  no two adjacent dollar signs and does not end in a dollar sign, so that the scanner
  finds no \<^verbatim>\<open>$$\<close> in it or across its end.
\<close>

fun dollar_body :: "string \<Rightarrow> bool" where
  "dollar_body [] = True"
| "dollar_body (c # cs) =
     (\<not> (c = CHR ''$'' \<and> (cs = [] \<or> hd cs = CHR ''$'')) \<and> dollar_body cs)"


section \<open>Go values and string helpers\<close>

text \<open>
  A value of Go's empty interface, as far as the modelled code looks at it: the nil
  interface, a string, a byte slice, an integer, a boolean, or a slice of such values
  (\<^verbatim>\<open>[]interface{}\<close>). In the byte-level code below a \<^typ>\<open>char\<close> is one byte.
\<close>

datatype go_value =
  VNil | VString string | VBytes string | VInt int | VBool bool | VSlice "go_value list"

text \<open>
  \<^verbatim>\<open>strings.Replace(s, old, new, n)\<close>: the first \<open>n\<close> non-overlapping occurrences of
  \<open>old\<close> replaced, all of them when \<open>n\<close> is negative. \<open>replace_from\<close> is the scan for
  a non-empty \<open>old\<close>, \<open>insert_each\<close> the case of the empty \<open>old\<close>, which matches before
  every character and at the end.
\<close>

fun replace_from :: "string \<Rightarrow> string \<Rightarrow> string \<Rightarrow> int \<Rightarrow> string" where
  "replace_from [] old new n = []"
| "replace_from (c # cs) old new n =
     (if n \<noteq> 0 \<and> HasPrefix (c # cs) old
      then new @ replace_from (drop (length old - 1) cs) old new (n - 1)
      else c # replace_from cs old new n)"

fun insert_each :: "string \<Rightarrow> string \<Rightarrow> int \<Rightarrow> string" where
  "insert_each [] new n = (if n = 0 then [] else new)"
| "insert_each (c # cs) new n =
     (if n = 0 then c # cs else new @ c # insert_each cs new (n - 1))"

definition Replace :: "string \<Rightarrow> string \<Rightarrow> string \<Rightarrow> int \<Rightarrow> string" where
  "Replace s old new n =
     (if old = new \<or> n = 0 then s
      else if old = [] then insert_each s new n
      else replace_from s old new n)"

definition ReplaceAll :: "string \<Rightarrow> string \<Rightarrow> string \<Rightarrow> string" where
  "ReplaceAll s old new = Replace s old new (- 1)"

text \<open>\<^verbatim>\<open>strings.Join(elems, sep)\<close>.\<close>

fun Join :: "string list \<Rightarrow> string \<Rightarrow> string" where
  "Join [] sep = []"
| "Join [x] sep = x"
| "Join (x # y # ys) sep = x @ sep @ Join (y # ys) sep"

text \<open>
  \<^verbatim>\<open>strings.Index(s, substr)\<close>, -1 when \<open>substr\<close> does not occur, and
  \<^verbatim>\<open>strings.Contains\<close>.
\<close>

fun index_from :: "string \<Rightarrow> string \<Rightarrow> nat \<Rightarrow> int" where
  "index_from [] sub i = (if sub = [] then int i else - 1)"
| "index_from (c # cs) sub i =
     (if HasPrefix (c # cs) sub then int i else index_from cs sub (Suc i))"

definition Index :: "string \<Rightarrow> string \<Rightarrow> int" where
  "Index s sub = index_from s sub 0"

definition Contains :: "string \<Rightarrow> string \<Rightarrow> bool" where
  "Contains s sub \<longleftrightarrow> Index s sub \<ge> 0"


section \<open>StringArray (pkg/storm-orm, the text[] field type)\<close>

text \<open>
  A \<^verbatim>\<open>StringArray\<close> is a Go slice of strings: \<open>None\<close> is the nil slice, \<open>Some xs\<close> a
  non-nil slice with the elements \<open>xs\<close> (\<open>Some []\<close> is the empty, non-nil slice).
\<close>

type_synonym StringArray = "string list option"

datatype scan_error = CannotScan go_value | InvalidArrayFormat string

text \<open>The element that \<^verbatim>\<open>Value\<close> appends for \<open>s\<close>: quoted, inner quotes doubled.\<close>

definition quote_element :: "string \<Rightarrow> string" where
  "quote_element s = [CHR 0x22] @ ReplaceAll s [CHR 0x22] [CHR 0x22, CHR 0x22] @ [CHR 0x22]"

text \<open>\<^verbatim>\<open>StringArray.Value\<close>; its error result is always nil.\<close>

definition Value :: "StringArray \<Rightarrow> go_value" where
  "Value sa =
     (case sa of
        None \<Rightarrow> VNil
      | Some xs \<Rightarrow>
          if length xs = 0 then VString ''{}''
          else VString (''{'' @ Join (map quote_element xs) '','' @ ''}''))"

text \<open>
  The loop of \<^verbatim>\<open>parseArray\<close> over the bytes of \<open>content\<close>, with its variables
  \<open>result\<close>, \<open>current\<close> and \<open>inQuotes\<close>; the last argument is \<^verbatim>\<open>content[i:]\<close>.
\<close>

fun parse_loop :: "string list \<Rightarrow> string \<Rightarrow> bool \<Rightarrow> string \<Rightarrow> string list \<times> string" where
  "parse_loop result current inQuotes [] = (result, current)"
| "parse_loop result current inQuotes (c # rs) =
     (if c = CHR 0x22 then
        (if inQuotes then
           (if rs \<noteq> [] \<and> hd rs = CHR 0x22
            then parse_loop result (current @ [CHR 0x22]) inQuotes (tl rs)
            else parse_loop result current False rs)
         else parse_loop result current True rs)
      else if c = CHR '','' then
        (if \<not> inQuotes then parse_loop (result @ [current]) [] inQuotes rs
         else parse_loop result (current @ [c]) inQuotes rs)
      else parse_loop result (current @ [c]) inQuotes rs)"

text \<open>
  \<^verbatim>\<open>parseArray\<close>. The variable \<open>result\<close> starts as the nil slice and is non-nil after
  the first append, so the slice stored at the end is nil exactly when nothing was
  appended.
\<close>

definition parseArray :: "string \<Rightarrow> scan_error + StringArray" where
  "parseArray s =
     (if s = [] \<or> s = ''{}'' then Inr (Some [])
      else if \<not> HasPrefix s ''{'' \<or> \<not> HasSuffix s ''}'' then Inl (InvalidArrayFormat s)
      else
        let content = take (length s - 1 - 1) (drop 1 s) in
        if content = [] then Inr (Some [])
        else
          let (result, current) = parse_loop [] [] False content;
              result' = (if length current > 0 \<or> length result > 0
                         then result @ [current] else result)
          in Inr (if result' = [] then None else Some result'))"

text \<open>\<^verbatim>\<open>StringArray.Scan\<close>: the new content of the receiver, or the error.\<close>

definition Scan :: "go_value \<Rightarrow> scan_error + StringArray" where
  "Scan v =
     (case v of
        VNil \<Rightarrow> Inr None
      | VBytes b \<Rightarrow> parseArray b
      | VString s \<Rightarrow> parseArray s
      | _ \<Rightarrow> Inl (CannotScan v))"

text \<open>What \<^verbatim>\<open>ReplaceAll\<close> with a quote for two quotes computes, written directly.\<close>

definition double_quotes :: "string \<Rightarrow> string" where
  "double_quotes s = concat (map (\<lambda>c. if c = CHR 0x22 then [CHR 0x22, CHR 0x22] else [c]) s)"


section \<open>Errors\<close>

text \<open>
  Go error values, by how the modelled code builds them: \<^verbatim>\<open>fmt.Errorf\<close> with a fixed
  message, \<^verbatim>\<open>fmt.Errorf("...: %w", err)\<close> wrapping another error, the package's
  \<^verbatim>\<open>&Error{Op, Table, Err}\<close>, the sentinels \<^verbatim>\<open>ErrNotFound\<close> and \<^verbatim>\<open>ErrNoPrimaryKey\<close>, and an
  error that the database driver returned.
\<close>

datatype go_error =
    Errorf string
  | Wrapf string go_error
  | OrmError string string go_error
  | ErrNotFound
  | ErrNoPrimaryKey
  | DriverError string


section \<open>Rendering of Query.Update (pkg/storm-orm, query.go)\<close>

text \<open>
  An \<^verbatim>\<open>Action\<close> is used by \<^verbatim>\<open>Update\<close> through its methods \<^verbatim>\<open>Expression()\<close> and
  \<^verbatim>\<open>Value()\<close> only.
\<close>

record Action =
  Expression :: string
  ActionValue :: go_value

text \<open>\<^verbatim>\<open>fmt.Sprintf("$%d", n)\<close> for a non-negative \<open>n\<close>: a dollar sign and the decimal digits.\<close>

definition digit :: "nat \<Rightarrow> char" where
  "digit d = ''0123456789'' ! d"

fun decimal :: "nat \<Rightarrow> string" where
  "decimal n = (if n < 10 then [digit n] else decimal (n div 10) @ [digit (n mod 10)])"

declare decimal.simps [simp del]

definition placeholder :: "nat \<Rightarrow> string" where
  "placeholder n = CHR ''$'' # decimal n"

lemma digit_not_question: "d < 10 \<Longrightarrow> digit d \<noteq> CHR ''?''"
proof -
  assume "d < 10"
  then have "digit d \<in> set ''0123456789''"
    unfolding digit_def by (intro nth_mem) simp
  then show ?thesis by auto
qed

lemma decimal_no_question: "CHR ''?'' \<notin> set (decimal n)"
proof (induction n rule: decimal.induct)
  case (1 n)
  show ?case
  proof (cases "n < 10")
    case True
    then have "digit n \<noteq> CHR ''?''" by (rule digit_not_question)
    with True show ?thesis by (auto simp: decimal.simps [of n])
  next
    case False
    have "n mod 10 < 10" by simp
    then have "digit (n mod 10) \<noteq> CHR ''?''" by (rule digit_not_question)
    with False 1 show ?thesis by (auto simp: decimal.simps [of n])
  qed
qed

lemma placeholder_no_question: "CHR ''?'' \<notin> set (placeholder n)"
  by (simp add: placeholder_def decimal_no_question)

lemma index_from_question: "index_from s ''?'' i \<ge> 0 \<longleftrightarrow> CHR ''?'' \<in> set s"
  by (induction s arbitrary: i) (auto simp: HasPrefix_def)

lemma Contains_question: "Contains s ''?'' \<longleftrightarrow> CHR ''?'' \<in> set s"
  by (simp add: Contains_def Index_def index_from_question)

lemma replace_from_first:
  "CHR ''?'' \<notin> set pre \<Longrightarrow>
   replace_from (pre @ CHR ''?'' # post) ''?'' new 1 = pre @ new @ post"
proof (induction pre)
  case Nil
  have "replace_from post ''?'' new 0 = post" by (induction post) simp_all
  then show ?case by (simp add: HasPrefix_def)
next
  case (Cons a pre)
  then show ?case by (auto simp: HasPrefix_def)
qed

lemma Replace_first:
  "CHR ''?'' \<notin> set pre \<Longrightarrow> new \<noteq> ''?'' \<Longrightarrow>
   Replace (pre @ CHR ''?'' # post) ''?'' new 1 = pre @ new @ post"
  by (simp add: Replace_def replace_from_first)

text \<open>
  The loop for a value that is not a list:
  \<^verbatim>\<open>for strings.Contains(expression, "?") { ... }\<close>. Each round replaces the first
  question mark by a placeholder, which holds none, so the loop ends.
\<close>

function scalar_loop ::
  "string \<Rightarrow> go_value \<Rightarrow> go_value list \<Rightarrow> nat \<Rightarrow> string \<times> go_value list \<times> nat" where
  "scalar_loop expression v args argIndex =
     (if Contains expression ''?''
      then scalar_loop (Replace expression ''?'' (placeholder argIndex) 1) v
             (args @ [v]) (argIndex + 1)
      else (expression, args, argIndex))"
  by pat_completeness auto
termination
proof (relation "measure (\<lambda>(expression, v, args, argIndex). count_list expression (CHR ''?''))")
  show "wf (measure (\<lambda>(expression, v, args, argIndex). count_list expression (CHR ''?'')))"
    by simp
next
  fix expression :: string and v :: go_value and args :: "go_value list" and argIndex :: nat
  assume "Contains expression ''?''"
  then have "CHR ''?'' \<in> set expression" by (simp add: Contains_question)
  then obtain pre post
    where e: "expression = pre @ CHR ''?'' # post" and p: "CHR ''?'' \<notin> set pre"
    by (auto dest: split_list_first)
  have n: "placeholder argIndex \<noteq> ''?''" by (simp add: placeholder_def)
  have c: "count_list (placeholder argIndex) (CHR ''?'') = 0"
    using placeholder_no_question [of argIndex] by (simp add: count_list_0_iff)
  have "Replace expression ''?'' (placeholder argIndex) 1 = pre @ placeholder argIndex @ post"
    unfolding e using p n by (rule Replace_first)
  then show "((Replace expression ''?'' (placeholder argIndex) 1, v, args @ [v], argIndex + 1),
              (expression, v, args, argIndex))
             \<in> measure (\<lambda>(expression, v, args, argIndex). count_list expression (CHR ''?''))"
    using c by (simp add: e)
qed

declare scalar_loop.simps [simp del]

text \<open>The loop for a list value: \<^verbatim>\<open>for _, v := range valueSlice { ... }\<close>.\<close>

fun slice_loop ::
  "string \<Rightarrow> go_value list \<Rightarrow> go_value list \<Rightarrow> nat \<Rightarrow> string \<times> go_value list \<times> nat" where
  "slice_loop expression [] args argIndex = (expression, args, argIndex)"
| "slice_loop expression (v # vs) args argIndex =
     slice_loop (Replace expression ''?'' (placeholder argIndex) 1) vs
       (args @ [v]) (argIndex + 1)"

text \<open>
  The body of \<^verbatim>\<open>for _, action := range actions\<close>, on the loop state
  \<open>(setParts, args, argIndex)\<close>.
\<close>

definition render_action ::
  "string list \<times> go_value list \<times> nat \<Rightarrow> Action \<Rightarrow> string list \<times> go_value list \<times> nat" where
  "render_action st action =
     (case st of (setParts, args, argIndex) \<Rightarrow>
        let expression = Expression action;
            v = ActionValue action;
            (expression', args', argIndex') =
              (if v \<noteq> VNil then
                 (case v of
                    VSlice valueSlice \<Rightarrow> slice_loop expression valueSlice args argIndex
                  | _ \<Rightarrow> scalar_loop expression v args argIndex)
               else (expression, args, argIndex))
        in (setParts @ [expression'], args', argIndex'))"

text \<open>
  The renumbering of the WHERE placeholders:
  \<^verbatim>\<open>for i := range whereArgs\<close> replaces every occurrence of the text \<^verbatim>\<open>$(i+1)\<close> by
  \<^verbatim>\<open>$(argIndex+i)\<close>, one \<open>i\<close> after the other, on the clause as the previous rounds left
  it.
\<close>

definition renumber_where :: "string \<Rightarrow> nat \<Rightarrow> nat \<Rightarrow> string" where
  "renumber_where whereClause argIndex n =
     foldl (\<lambda>w i. Replace w (placeholder (i + 1)) (placeholder (argIndex + i)) (- 1))
       whereClause [0..<n]"

text \<open>
  The statement and arguments that \<^verbatim>\<open>Update\<close> builds before it enters the middleware
  pipeline, or the error it returns instead. \<open>ToSql\<close> stands for squirrel's
  \<^verbatim>\<open>Select("1").Where(q.whereClause).PlaceholderFormat(squirrel.Dollar).ToSql()\<close>, a
  third-party library: it is a parameter, giving the rendered text (with \<^verbatim>\<open>$1\<close>,
  \<^verbatim>\<open>$2\<close>, ... for the parameters) and the arguments, or an error.
\<close>

definition Update_statement ::
  "('c list \<Rightarrow> go_error + string \<times> go_value list) \<Rightarrow> string \<Rightarrow> 'c list \<Rightarrow> Action list
     \<Rightarrow> go_error + string \<times> go_value list" where
  "Update_statement ToSql table whereClause actions =
     (if length actions = 0
      then Inl (OrmError ''update'' table (Errorf ''no actions provided''))
      else
        let (setParts, args, argIndex) = foldl render_action ([], [], 1) actions;
            baseSQL = ''UPDATE '' @ table @ '' SET '' @ Join setParts '', ''
        in if length whereClause > 0 then
             (case ToSql whereClause of
                Inl err \<Rightarrow>
                  Inl (OrmError ''update'' table (Wrapf ''failed to build where clause'' err))
              | Inr (dummySQL, whereArgs) \<Rightarrow>
                  let whereStart = Index dummySQL ''WHERE'' in
                  if whereStart \<noteq> - 1 then
                    Inr (baseSQL @ '' '' @
                           renumber_where (drop (nat whereStart) dummySQL) argIndex
                             (length whereArgs),
                         args @ whereArgs)
                  else Inr (baseSQL, args))
           else Inr (baseSQL, args))"

text \<open>
  The block \<^verbatim>\<open>if len(q.whereClause) > 0 { ... }\<close> of \<^verbatim>\<open>Update\<close> taken alone, for a
  counter \<open>argIndex\<close> as the loop over the actions left it: the text it appends to the
  statement and the arguments it appends to the argument list, or the error it
  returns.
\<close>

definition where_part ::
  "('c list \<Rightarrow> go_error + string \<times> go_value list) \<Rightarrow> string \<Rightarrow> 'c list \<Rightarrow> nat
     \<Rightarrow> go_error + string \<times> go_value list" where
  "where_part ToSql table whereClause argIndex =
     (if length whereClause > 0 then
        (case ToSql whereClause of
           Inl err \<Rightarrow>
             Inl (OrmError ''update'' table (Wrapf ''failed to build where clause'' err))
         | Inr (dummySQL, whereArgs) \<Rightarrow>
             let whereStart = Index dummySQL ''WHERE'' in
             if whereStart \<noteq> - 1 then
               Inr ('' '' @ renumber_where (drop (nat whereStart) dummySQL) argIndex
                             (length whereArgs),
                    whereArgs)
             else Inr ([], []))
      else Inr ([], []))"

text \<open>
  Vocabulary for the properties of the rendering. \<open>number_placeholders e n\<close> is \<open>e\<close>
  with its question marks replaced, from left to right, by the placeholders numbered
  \<open>n\<close>, \<open>n + 1\<close>, ...; \<open>is_scalar\<close> holds for a value that is neither nil nor a list.
\<close>

fun number_placeholders :: "string \<Rightarrow> nat \<Rightarrow> string" where
  "number_placeholders [] n = []"
| "number_placeholders (c # cs) n =
     (if c = CHR ''?'' then placeholder n @ number_placeholders cs (Suc n)
      else c # number_placeholders cs n)"

definition is_scalar :: "go_value \<Rightarrow> bool" where
  "is_scalar v = (case v of VNil \<Rightarrow> False | VSlice vs \<Rightarrow> False | _ \<Rightarrow> True)"


section \<open>Transactions (pkg/storm-orm/storm.go)\<close>

text \<open>
  The dynamic type of a \<^verbatim>\<open>DBExecutor\<close> interface value, as the type assertions of
  \<^verbatim>\<open>isInTransaction\<close> and \<^verbatim>\<open>WithTransaction\<close> look at it: a \<^verbatim>\<open>*sqlx.DB\<close>, a
  \<^verbatim>\<open>*sqlx.Tx\<close>, a \<^verbatim>\<open>*loggingExecutor\<close> around another executor, or anything else.
  Connections, transactions and loggers are handles.
\<close>

datatype DBExecutor = SqlxDB nat | SqlxTx nat | LoggingExecutor DBExecutor nat | OtherExecutor

record TransactionOptions =
  Isolation :: int
  ReadOnly :: bool

record TxOptions =
  TxIsolation :: int
  TxReadOnly :: bool

text \<open>\<^verbatim>\<open>ToTxOptions\<close>, on a pointer that may be nil.\<close>

definition ToTxOptions :: "TransactionOptions option \<Rightarrow> TxOptions option" where
  "ToTxOptions opts =
     (case opts of
        None \<Rightarrow> None
      | Some o' \<Rightarrow> Some \<lparr>TxIsolation = Isolation o', TxReadOnly = ReadOnly o'\<rparr>)"

text \<open>
  A \<^verbatim>\<open>Storm\<close>: the connection, the current executor and the optional logger (its
  registry of repositories plays no part in the code modelled here).
\<close>

record Storm =
  storm_db :: DBExecutor
  storm_executor :: DBExecutor
  storm_logger :: "nat option"

definition newStormWithExecutor :: "nat \<Rightarrow> DBExecutor \<Rightarrow> nat option \<Rightarrow> Storm" where
  "newStormWithExecutor db executor logger =
     \<lparr>storm_db = SqlxDB db,
      storm_executor =
        (case logger of Some l \<Rightarrow> LoggingExecutor executor l | None \<Rightarrow> executor),
      storm_logger = logger\<rparr>"

definition isInTransaction :: "Storm \<Rightarrow> bool" where
  "isInTransaction s =
     (case storm_executor s of
        SqlxTx t \<Rightarrow> True
      | LoggingExecutor (SqlxTx t) l \<Rightarrow> True
      | _ \<Rightarrow> False)"

text \<open>
  The database's answers to the three transaction calls are parameters; the calls made
  are recorded as events, in order.
\<close>

record tx_driver =
  BeginTxx :: "nat \<Rightarrow> TxOptions option \<Rightarrow> go_error + nat"
  Commit :: "nat \<Rightarrow> go_error option"
  Rollback :: "nat \<Rightarrow> go_error option"

datatype tx_event = EvBegin nat "TxOptions option" | EvCommit nat | EvRollback nat

text \<open>How a call ends: it returns a value, or it panics with a value.\<close>

datatype 'a outcome = Returns 'a | Panics string

text \<open>
  The deferred function: it calls \<^verbatim>\<open>tx.Rollback()\<close> unless \<open>committed\<close> is set, and
  drops the result. It runs on every way out of the function once the transaction
  has begun, a panic of the callback included.
\<close>

definition deferred_rollback :: "bool \<Rightarrow> nat \<Rightarrow> tx_event list" where
  "deferred_rollback committed tx = (if \<not> committed then [EvRollback tx] else [])"

definition WithTransaction ::
  "tx_driver \<Rightarrow> Storm \<Rightarrow> (Storm \<Rightarrow> go_error option outcome)
     \<Rightarrow> go_error option outcome \<times> tx_event list" where
  "WithTransaction drv s fn =
     (if isInTransaction s then (fn s, [])
      else
        (case storm_db s of
           SqlxDB db \<Rightarrow>
             (case BeginTxx drv db None of
                Inl err \<Rightarrow>
                  (Returns (Some (Wrapf ''failed to begin transaction'' err)),
                   [EvBegin db None])
              | Inr tx \<Rightarrow>
                  let txStorm = newStormWithExecutor db (SqlxTx tx) (storm_logger s) in
                  (case fn txStorm of
                     Panics p \<Rightarrow> (Panics p, [EvBegin db None] @ deferred_rollback False tx)
                   | Returns (Some err) \<Rightarrow>
                       (Returns (Some err), [EvBegin db None] @ deferred_rollback False tx)
                   | Returns None \<Rightarrow>
                       (case Commit drv tx of
                          Some err \<Rightarrow>
                            (Returns (Some (Wrapf ''failed to commit transaction'' err)),
                             [EvBegin db None, EvCommit tx] @ deferred_rollback False tx)
                        | None \<Rightarrow>
                            (Returns None,
                             [EvBegin db None, EvCommit tx] @ deferred_rollback True tx))))
         | _ \<Rightarrow>
             (Returns (Some (Errorf
                ''cannot start transaction: executor is not a database connection'')), [])))"

definition WithTransactionOptions ::
  "tx_driver \<Rightarrow> Storm \<Rightarrow> TransactionOptions option \<Rightarrow> (Storm \<Rightarrow> go_error option outcome)
     \<Rightarrow> go_error option outcome \<times> tx_event list" where
  "WithTransactionOptions drv s opts fn =
     (if isInTransaction s then (fn s, [])
      else
        (case storm_db s of
           SqlxDB db \<Rightarrow>
             let txOpts = ToTxOptions opts in
             (case BeginTxx drv db txOpts of
                Inl err \<Rightarrow>
                  (Returns (Some (Wrapf ''failed to begin transaction'' err)),
                   [EvBegin db txOpts])
              | Inr tx \<Rightarrow>
                  let txStorm = newStormWithExecutor db (SqlxTx tx) (storm_logger s) in
                  (case fn txStorm of
                     Panics p \<Rightarrow> (Panics p, [EvBegin db txOpts] @ deferred_rollback False tx)
                   | Returns (Some err) \<Rightarrow>
                       (Returns (Some err), [EvBegin db txOpts] @ deferred_rollback False tx)
                   | Returns None \<Rightarrow>
                       (case Commit drv tx of
                          Some err \<Rightarrow>
                            (Returns (Some (Wrapf ''failed to commit transaction'' err)),
                             [EvBegin db txOpts, EvCommit tx] @ deferred_rollback False tx)
                        | None \<Rightarrow>
                            (Returns None,
                             [EvBegin db txOpts, EvCommit tx] @ deferred_rollback True tx))))
         | _ \<Rightarrow>
             (Returns (Some (Errorf
                ''cannot start transaction: executor is not a database connection'')), [])))"


section \<open>Repository and Authorize (pkg/storm-orm, repository.go)\<close>

text \<open>
  Go slices and pointers are modelled with an explicit store. A slice header is the
  address of its backing array (none for the nil slice), a length and a capacity. The
  store holds the backing arrays of the \<^verbatim>\<open>[]AuthorizeFunc\<close> slices (an element is an
  authorization function or the nil function), the middleware managers (each the
  ordered list of its middlewares), the \<^verbatim>\<open>ModelMetadata\<close> values that repositories
  point to, and the next free address. Authorization functions \<open>'f\<close> and middlewares
  \<open>'m\<close> are opaque here.
\<close>

type_synonym addr = nat

record slice =
  sl_array :: "addr option"
  sl_len :: nat
  sl_cap :: nat

text \<open>
  The fields of \<^verbatim>\<open>ModelMetadata\<close> that the modelled code reads; \<open>ColumnNames\<close> is the
  list of the \<^verbatim>\<open>DBName\<close>s of its columns, in the order in which \<^verbatim>\<open>Columns()\<close>
  meets them.
\<close>

record ModelMetadata =
  TableName :: string
  PrimaryKeys :: "string list"
  ColumnNames :: "string list"

record ('f, 'm) store =
  func_arrays :: "addr \<Rightarrow> 'f option list option"
  managers :: "addr \<Rightarrow> 'm list option"
  metas :: "addr \<Rightarrow> ModelMetadata option"
  next_addr :: addr

text \<open>
  A \<^verbatim>\<open>Repository\<close> value: the executor (an interface value, possibly nil), the
  pointers to the metadata and to the middleware manager, and the slice header of
  the authorization functions.
\<close>

record Repository =
  repo_db :: "DBExecutor option"
  repo_metadata :: "addr option"
  repo_middlewareManager :: "addr option"
  repo_authorizeFuncs :: slice

text \<open>\<^verbatim>\<open>make([]AuthorizeFunc[T], n)\<close>: a fresh backing array of \<open>n\<close> nil functions.\<close>

definition make_funcs :: "('f, 'm) store \<Rightarrow> nat \<Rightarrow> ('f, 'm) store \<times> slice" where
  "make_funcs h n =
     (h\<lparr>func_arrays := (func_arrays h)(next_addr h \<mapsto> replicate n None),
        next_addr := Suc (next_addr h)\<rparr>,
      \<lparr>sl_array = Some (next_addr h), sl_len = n, sl_cap = n\<rparr>)"

text \<open>The elements that a slice header denotes in a store.\<close>

definition elems :: "('f, 'm) store \<Rightarrow> slice \<Rightarrow> 'f option list" where
  "elems h s =
     (case sl_array s of
        None \<Rightarrow> []
      | Some a \<Rightarrow> (case func_arrays h a of None \<Rightarrow> [] | Some xs \<Rightarrow> take (sl_len s) xs))"

text \<open>
  \<^verbatim>\<open>copy(dst, src)\<close>: the first \<open>min (len dst) (len src)\<close> elements of \<open>src\<close> written
  into the backing array of \<open>dst\<close>.
\<close>

definition copy_funcs :: "('f, 'm) store \<Rightarrow> slice \<Rightarrow> slice \<Rightarrow> ('f, 'm) store" where
  "copy_funcs h dst src =
     (case sl_array dst of
        None \<Rightarrow> h
      | Some a \<Rightarrow>
          (case func_arrays h a of
             None \<Rightarrow> h
           | Some xs \<Rightarrow>
               let k = min (sl_len dst) (sl_len src)
               in h\<lparr>func_arrays :=
                      (func_arrays h)(a \<mapsto> take k (elems h src) @ drop k xs)\<rparr>))"

text \<open>\<^verbatim>\<open>s[i] = v\<close>; \<open>None\<close> is the panic of an index out of range.\<close>

definition store_func ::
  "('f, 'm) store \<Rightarrow> slice \<Rightarrow> nat \<Rightarrow> 'f option \<Rightarrow> ('f, 'm) store option" where
  "store_func h s i v =
     (if i < sl_len s then
        (case sl_array s of
           None \<Rightarrow> None
         | Some a \<Rightarrow>
             (case func_arrays h a of
                None \<Rightarrow> None
              | Some xs \<Rightarrow> Some (h\<lparr>func_arrays := (func_arrays h)(a \<mapsto> xs[i := v])\<rparr>)))
      else None)"

text \<open>
  \<^verbatim>\<open>Authorize\<close>: the new store and the new \<^verbatim>\<open>Repository\<close>; \<open>None\<close> would be a
  panic.
\<close>

definition Authorize ::
  "('f, 'm) store \<Rightarrow> Repository \<Rightarrow> 'f option \<Rightarrow> (('f, 'm) store \<times> Repository) option" where
  "Authorize h r fn =
     (let n = sl_len (repo_authorizeFuncs r);
          (h1, newFuncs) = make_funcs h (n + 1);
          h2 = copy_funcs h1 newFuncs (repo_authorizeFuncs r)
      in case store_func h2 newFuncs n fn of
           None \<Rightarrow> None
         | Some h3 \<Rightarrow>
             Some (h3, \<lparr>repo_db = repo_db r,
                        repo_metadata = repo_metadata r,
                        repo_middlewareManager = repo_middlewareManager r,
                        repo_authorizeFuncs = newFuncs\<rparr>))"

text \<open>The authorization list of a repository, as a store holds it.\<close>

definition authorizeFuncs :: "('f, 'm) store \<Rightarrow> Repository \<Rightarrow> 'f option list" where
  "authorizeFuncs h r = elems h (repo_authorizeFuncs r)"

text \<open>
  Modelled from the spec: the middleware manager (\<^verbatim>\<open>middlewareManager\<close>,
  \<^verbatim>\<open>newMiddlewareManager\<close>, \<^verbatim>\<open>AddMiddleware\<close>), whose source is not among the files.
  The specification says that a manager holds an ordered list of middlewares and
  that \<^verbatim>\<open>AddMiddleware(m)\<close> appends to it. \<open>middlewares\<close> is the list that a
  repository's operations run: the one of the manager it points to.
  \<^verbatim>\<open>AddMiddleware\<close> on a repository without a manager is \<open>None\<close>.
\<close>

definition newMiddlewareManager :: "('f, 'm) store \<Rightarrow> ('f, 'm) store \<times> addr" where
  "newMiddlewareManager h =
     (h\<lparr>managers := (managers h)(next_addr h \<mapsto> []), next_addr := Suc (next_addr h)\<rparr>,
      next_addr h)"

definition middlewares :: "('f, 'm) store \<Rightarrow> Repository \<Rightarrow> 'm list" where
  "middlewares h r =
     (case repo_middlewareManager r of
        None \<Rightarrow> []
      | Some a \<Rightarrow> (case managers h a of None \<Rightarrow> [] | Some ms \<Rightarrow> ms))"

definition AddMiddleware :: "('f, 'm) store \<Rightarrow> Repository \<Rightarrow> 'm \<Rightarrow> ('f, 'm) store option" where
  "AddMiddleware h r m =
     (case repo_middlewareManager r of
        None \<Rightarrow> None
      | Some a \<Rightarrow>
          (case managers h a of
             None \<Rightarrow> None
           | Some ms \<Rightarrow> Some (h\<lparr>managers := (managers h)(a \<mapsto> ms @ [m])\<rparr>)))"

text \<open>
  \<^verbatim>\<open>initialize\<close> and \<^verbatim>\<open>NewRepositoryWithExecutor\<close>. An address that holds no
  metadata is treated as the nil pointer.
\<close>

definition initialize ::
  "('f, 'm) store \<Rightarrow> Repository \<Rightarrow> go_error + ('f, 'm) store \<times> Repository" where
  "initialize h r =
     (case repo_metadata r of
        None \<Rightarrow> Inl (Errorf ''metadata is nil'')
      | Some a \<Rightarrow>
          (case metas h a of
             None \<Rightarrow> Inl (Errorf ''metadata is nil'')
           | Some md \<Rightarrow>
               if length (PrimaryKeys md) = 0 then Inl ErrNoPrimaryKey
               else
                 let (h', mm) = newMiddlewareManager h
                 in Inr (h', r\<lparr>repo_middlewareManager := Some mm\<rparr>)))"

definition NewRepositoryWithExecutor ::
  "('f, 'm) store \<Rightarrow> DBExecutor option \<Rightarrow> addr option
     \<Rightarrow> go_error + ('f, 'm) store \<times> Repository" where
  "NewRepositoryWithExecutor h executor metadata =
     (if executor = None
      then Inl (OrmError ''initialize'' '''' (Errorf ''database cannot be nil''))
      else if metadata = None
      then Inl (OrmError ''initialize'' '''' (Errorf ''metadata cannot be nil''))
      else
        let (h1, funcs) = make_funcs h 0;
            repo = \<lparr>repo_db = executor, repo_metadata = metadata,
                    repo_middlewareManager = None, repo_authorizeFuncs = funcs\<rparr>
        in case initialize h1 repo of
             Inl err \<Rightarrow>
               Inl (OrmError ''initialize''
                      (case metadata of
                         None \<Rightarrow> []
                       | Some a \<Rightarrow>
                           (case metas h a of None \<Rightarrow> [] | Some md \<Rightarrow> TableName md))
                      err)
           | Inr res \<Rightarrow> Inr res)"

text \<open>
  Well-formed stores and repositories: nothing is allocated at or above the next free
  address; a slice header points to an allocated array that is at least as long as the
  slice (a nil slice is empty); the manager pointer of a repository points to a
  manager.
\<close>

definition store_ok :: "('f, 'm) store \<Rightarrow> bool" where
  "store_ok h \<longleftrightarrow>
     (\<forall>a. next_addr h \<le> a \<longrightarrow> func_arrays h a = None \<and> managers h a = None)"

definition slice_ok :: "('f, 'm) store \<Rightarrow> slice \<Rightarrow> bool" where
  "slice_ok h s =
     (case sl_array s of
        None \<Rightarrow> sl_len s = 0
      | Some a \<Rightarrow>
          (case func_arrays h a of None \<Rightarrow> False | Some xs \<Rightarrow> sl_len s \<le> length xs))"

definition repo_ok :: "('f, 'm) store \<Rightarrow> Repository \<Rightarrow> bool" where
  "repo_ok h r = slice_ok h (repo_authorizeFuncs r)"

definition manager_ok :: "('f, 'm) store \<Rightarrow> Repository \<Rightarrow> bool" where
  "manager_ok h r =
     (case repo_middlewareManager r of
        None \<Rightarrow> False
      | Some a \<Rightarrow> (case managers h a of None \<Rightarrow> False | Some ms \<Rightarrow> True))"

text \<open>
  An example: a store that holds the metadata of a table \<open>users\<close> at address 0, and
  the store and repository that \<^verbatim>\<open>NewRepositoryWithExecutor\<close> makes from it.
\<close>

definition example_store :: "('f, 'm) store" where
  "example_store =
     \<lparr>func_arrays = Map.empty, managers = Map.empty,
      metas = [0 \<mapsto> \<lparr>TableName = ''users'', PrimaryKeys = [''id''],
                       ColumnNames = [''id'', ''name'']\<rparr>],
      next_addr = 1\<rparr>"

definition base_store :: "('f, 'm) store" where
  "base_store =
     \<lparr>func_arrays = [1 \<mapsto> []], managers = [2 \<mapsto> []],
      metas = [0 \<mapsto> \<lparr>TableName = ''users'', PrimaryKeys = [''id''],
                       ColumnNames = [''id'', ''name'']\<rparr>],
      next_addr = 3\<rparr>"

definition base_repo :: Repository where
  "base_repo =
     \<lparr>repo_db = Some (SqlxDB 1), repo_metadata = Some 0, repo_middlewareManager = Some 2,
      repo_authorizeFuncs = \<lparr>sl_array = Some 1, sl_len = 0, sl_cap = 0\<rparr>\<rparr>"


section \<open>Query builder (pkg/storm-orm, query.go)\<close>

text \<open>
  The squirrel builders are values of a third-party library. A builder is modelled as
  the record of the clauses it has been given, in the order given: \<^verbatim>\<open>InnerJoin\<close>,
  \<^verbatim>\<open>LeftJoin\<close>, \<^verbatim>\<open>RightJoin\<close> and \<^verbatim>\<open>Join\<close> add the join text with their keyword in
  front, \<^verbatim>\<open>Where\<close> adds one part (here always a conjunction of conditions),
  \<^verbatim>\<open>OrderBy\<close> adds an expression, \<^verbatim>\<open>Limit\<close> and \<^verbatim>\<open>Offset\<close> set their number.
  A condition \<open>'c\<close> (a \<^verbatim>\<open>squirrel.Sqlizer\<close>) is opaque.
\<close>

record 'c SelectBuilder =
  sb_Columns :: "string list"
  sb_From :: string
  sb_Joins :: "string list"
  sb_WhereParts :: "'c list list"
  sb_OrderBys :: "string list"
  sb_Limit :: "nat option"
  sb_Offset :: "nat option"

record 'c DeleteBuilder =
  del_From :: string
  del_WhereParts :: "'c list list"

definition sq_Select :: "string list \<Rightarrow> string \<Rightarrow> 'c SelectBuilder" where
  "sq_Select columns table =
     \<lparr>sb_Columns = columns, sb_From = table, sb_Joins = [], sb_WhereParts = [],
      sb_OrderBys = [], sb_Limit = None, sb_Offset = None\<rparr>"

definition sq_JoinClause :: "'c SelectBuilder \<Rightarrow> string \<Rightarrow> 'c SelectBuilder" where
  "sq_JoinClause b text = b\<lparr>sb_Joins := sb_Joins b @ [text]\<rparr>"

definition sq_Where :: "'c SelectBuilder \<Rightarrow> 'c list \<Rightarrow> 'c SelectBuilder" where
  "sq_Where b conds = b\<lparr>sb_WhereParts := sb_WhereParts b @ [conds]\<rparr>"

definition sq_OrderBy :: "'c SelectBuilder \<Rightarrow> string \<Rightarrow> 'c SelectBuilder" where
  "sq_OrderBy b e = b\<lparr>sb_OrderBys := sb_OrderBys b @ [e]\<rparr>"

datatype JoinType = InnerJoin | LeftJoin | RightJoin | FullJoin

record join =
  join_Type :: JoinType
  join_Table :: string
  join_Condition :: string

record 'c include_clause =
  inc_name :: string
  inc_conditions :: "'c list"

text \<open>
  A \<^verbatim>\<open>Query\<close>. The context is a handle; \<open>q_tx\<close> is the transaction set by
  \<^verbatim>\<open>WithTx\<close>, if any.
\<close>

record 'c Query =
  q_repo :: Repository
  q_builder :: "'c SelectBuilder"
  q_err :: "go_error option"
  q_ctx :: nat
  q_limit :: "nat option"
  q_offset :: "nat option"
  q_orderBy :: "string list"
  q_whereClause :: "'c list"
  q_tx :: "nat option"
  q_joins :: "join list"
  q_includes :: "'c include_clause list"

text \<open>
  The metadata a repository points to. \<open>table_of\<close> is the expression
  \<^verbatim>\<open>q.repo.metadata.TableName\<close>: it reads the table name through the pointer, and
  panics when the pointer is nil. \<open>with_table\<close> is a composite literal or a call with
  this expression among its operands, such as
  \<^verbatim>\<open>&Error{Op: ..., Table: q.repo.metadata.TableName, Err: ...}\<close>: it panics when
  the read does.
\<close>

definition metadata_of :: "('f, 'm) store \<Rightarrow> Repository \<Rightarrow> ModelMetadata option" where
  "metadata_of h r = (case repo_metadata r of None \<Rightarrow> None | Some a \<Rightarrow> metas h a)"

definition table_of :: "('f, 'm) store \<Rightarrow> Repository \<Rightarrow> string outcome" where
  "table_of h r =
     (case metadata_of h r of
        None \<Rightarrow> Panics ''invalid memory address or nil pointer dereference''
      | Some md \<Rightarrow> Returns (TableName md))"

definition with_table :: "('f, 'm) store \<Rightarrow> Repository \<Rightarrow> (string \<Rightarrow> 'a) \<Rightarrow> 'a outcome" where
  "with_table h r mk =
     (case table_of h r of Panics p \<Rightarrow> Panics p | Returns table \<Rightarrow> Returns (mk table))"

text \<open>
  \<^verbatim>\<open>Repository.Query(ctx)\<close>: the fresh query, passed through the authorization
  functions in order. Calling a nil function panics, as does a nil metadata pointer.
\<close>

fun apply_authorize :: "nat \<Rightarrow> (nat \<Rightarrow> 'q \<Rightarrow> 'q) option list \<Rightarrow> 'q \<Rightarrow> 'q outcome" where
  "apply_authorize ctx [] query = Returns query"
| "apply_authorize ctx (None # fs) query = Panics ''invalid memory address or nil pointer dereference''"
| "apply_authorize ctx (Some authFunc # fs) query = apply_authorize ctx fs (authFunc ctx query)"

definition RepositoryQuery ::
  "(nat \<Rightarrow> 'c Query \<Rightarrow> 'c Query, 'm) store \<Rightarrow> Repository \<Rightarrow> nat \<Rightarrow> 'c Query outcome" where
  "RepositoryQuery h r ctx =
     (case metadata_of h r of
        None \<Rightarrow> Panics ''invalid memory address or nil pointer dereference''
      | Some md \<Rightarrow>
          apply_authorize ctx (authorizeFuncs h r)
            \<lparr>q_repo = r,
             q_builder = sq_Select (ColumnNames md) (TableName md),
             q_err = None, q_ctx = ctx, q_limit = None, q_offset = None, q_orderBy = [],
             q_whereClause = [], q_tx = None, q_joins = [], q_includes = []\<rparr>)"

text \<open>The chaining methods; each returns its receiver, changed unless it carries an error.\<close>

definition WithTx :: "'c Query \<Rightarrow> nat \<Rightarrow> 'c Query" where
  "WithTx q tx = q\<lparr>q_tx := Some tx\<rparr>"

definition Where :: "'c Query \<Rightarrow> 'c \<Rightarrow> 'c Query" where
  "Where q condition =
     (if q_err q \<noteq> None then q else q\<lparr>q_whereClause := q_whereClause q @ [condition]\<rparr>)"

definition OrderBy :: "'c Query \<Rightarrow> string list \<Rightarrow> 'c Query" where
  "OrderBy q expressions =
     (if q_err q \<noteq> None then q else q\<lparr>q_orderBy := q_orderBy q @ expressions\<rparr>)"

definition Limit :: "'c Query \<Rightarrow> nat \<Rightarrow> 'c Query" where
  "Limit q n = (if q_err q \<noteq> None then q else q\<lparr>q_limit := Some n\<rparr>)"

definition Offset :: "'c Query \<Rightarrow> nat \<Rightarrow> 'c Query" where
  "Offset q n = (if q_err q \<noteq> None then q else q\<lparr>q_offset := Some n\<rparr>)"

definition QueryJoin :: "'c Query \<Rightarrow> JoinType \<Rightarrow> string \<Rightarrow> string \<Rightarrow> 'c Query" where
  "QueryJoin q joinType table condition =
     (if q_err q \<noteq> None then q
      else q\<lparr>q_joins := q_joins q @
               [\<lparr>join_Type = joinType, join_Table = table, join_Condition = condition\<rparr>]\<rparr>)"

definition Include :: "'c Query \<Rightarrow> string list \<Rightarrow> 'c Query" where
  "Include q relationships =
     (if q_err q \<noteq> None then q
      else q\<lparr>q_includes := q_includes q @
               map (\<lambda>rel. \<lparr>inc_name = rel, inc_conditions = []\<rparr>) relationships\<rparr>)"

definition IncludeWhere :: "'c Query \<Rightarrow> string \<Rightarrow> 'c list \<Rightarrow> 'c Query" where
  "IncludeWhere q relationship conditions =
     (if q_err q \<noteq> None then q
      else q\<lparr>q_includes := q_includes q @
               [\<lparr>inc_name = relationship, inc_conditions = conditions\<rparr>]\<rparr>)"

text \<open>
  The \<^verbatim>\<open>switch join.Type\<close> that \<^verbatim>\<open>Find\<close>, \<^verbatim>\<open>Count\<close> and \<^verbatim>\<open>buildQuery\<close> run for
  every join.
\<close>

definition add_join :: "'c SelectBuilder \<Rightarrow> join \<Rightarrow> 'c SelectBuilder" where
  "add_join b j =
     (case join_Type j of
        InnerJoin \<Rightarrow> sq_JoinClause b (''INNER JOIN '' @ join_Table j @ '' ON '' @ join_Condition j)
      | LeftJoin \<Rightarrow> sq_JoinClause b (''LEFT JOIN '' @ join_Table j @ '' ON '' @ join_Condition j)
      | RightJoin \<Rightarrow> sq_JoinClause b (''RIGHT JOIN '' @ join_Table j @ '' ON '' @ join_Condition j)
      | FullJoin \<Rightarrow>
          sq_JoinClause b
            (''JOIN '' @ ''FULL OUTER JOIN '' @ join_Table j @ '' ON '' @ join_Condition j))"

text \<open>The builder that \<^verbatim>\<open>Find\<close> hands to the pipeline.\<close>

definition find_builder :: "'c Query \<Rightarrow> 'c SelectBuilder" where
  "find_builder q =
     (let b1 = foldl add_join (q_builder q) (q_joins q);
          b2 = (if length (q_whereClause q) > 0 then sq_Where b1 (q_whereClause q) else b1);
          b3 = foldl sq_OrderBy b2 (q_orderBy q);
          b4 = (case q_limit q of None \<Rightarrow> b3 | Some n \<Rightarrow> b3\<lparr>sb_Limit := Some n\<rparr>);
          b5 = (case q_offset q of None \<Rightarrow> b4 | Some n \<Rightarrow> b4\<lparr>sb_Offset := Some n\<rparr>)
      in b5)"

text \<open>
  The builder that \<^verbatim>\<open>Count\<close> hands to the pipeline; \<open>table\<close> is what the read of
  \<^verbatim>\<open>q.repo.metadata.TableName\<close> gave.
\<close>

definition count_builder :: "string \<Rightarrow> 'c Query \<Rightarrow> 'c SelectBuilder" where
  "count_builder table q =
     (let b0 = sq_Select [''COUNT(*)''] table;
          b1 = foldl add_join b0 (q_joins q);
          b2 = (if length (q_whereClause q) > 0 then sq_Where b1 (q_whereClause q) else b1)
      in b2)"

text \<open>The builder that \<^verbatim>\<open>Delete\<close> hands to the pipeline, likewise.\<close>

definition delete_builder :: "string \<Rightarrow> 'c Query \<Rightarrow> 'c DeleteBuilder" where
  "delete_builder table q =
     (let b0 = \<lparr>del_From = table, del_WhereParts = []\<rparr>
      in if length (q_whereClause q) > 0
         then b0\<lparr>del_WhereParts := del_WhereParts b0 @ [q_whereClause q]\<rparr> else b0)"


section \<open>Middleware pipeline and the driver\<close>

datatype OperationType = OpQuery | OpCreate | OpUpdate | OpUpdateMany | OpDelete

text \<open>
  The value of the \<^verbatim>\<open>QueryBuilder\<close> field, of interface type: a select builder, a
  delete builder, or a string.
\<close>

datatype 'c QueryBuilder =
  SelectQ "'c SelectBuilder" | DeleteQ "'c DeleteBuilder" | TextQ string

record 'c MiddlewareContext =
  mc_Operation :: OperationType
  mc_TableName :: string
  mc_QueryBuilder :: "'c QueryBuilder"
  mc_Query :: string
  mc_Args :: "go_value list"
  mc_Metadata :: "string \<Rightarrow> go_value option"
  mc_Context :: nat

text \<open>
  What is sent to the database: the text and arguments that squirrel renders from a
  builder (standing here as the builder itself), or a text with its arguments. The
  executor is the query's transaction if it has one, the repository's executor
  otherwise.
\<close>

datatype 'c statement =
  SelectSQL "'c SelectBuilder" | DeleteSQL "'c DeleteBuilder" | TextSQL string "go_value list"

datatype target = OnTx nat | OnExecutor "DBExecutor option"

definition target_of :: "'c Query \<Rightarrow> target" where
  "target_of q = (case q_tx q of Some tx \<Rightarrow> OnTx tx | None \<Rightarrow> OnExecutor (repo_db (q_repo q)))"

text \<open>
  The calls that an operation makes, in order: the entry into the middleware pipeline
  with the context built for it, and the calls of the driver.
\<close>

datatype 'c event =
    EnterPipeline "'c MiddlewareContext"
  | DriverSelect target "'c statement"
  | DriverGet target "'c statement"
  | DriverExec target "'c statement"

type_synonym row = "go_value list"

text \<open>
  Modelled from the spec: a middleware, the chain and \<^verbatim>\<open>executeQueryMiddleware\<close>, whose
  source is not among the files. The specification describes a middleware as a
  function around \<open>next\<close> with a block before the call of \<open>next\<close>, which may rewrite
  the context or return an error without calling \<open>next\<close>, and a block after it;
  the first middleware added is the outermost; the function at the end of the chain
  is the driver call; the context carries the operation kind, the table name, the
  builder, the metadata map and the cancellation context. A middleware is modelled
  by its two blocks, over a state \<open>'s\<close> of its own. A panic raised further down the
  chain skips the blocks after it. The \<open>model\<close> argument of
  \<^verbatim>\<open>executeQueryMiddleware\<close> has no field in the context of the specification and
  is left out. The table name of the context is the one of the repository's metadata,
  read through the pointer as everywhere in the repository: with a nil pointer
  \<^verbatim>\<open>executeQueryMiddleware\<close> panics before the chain is entered.
\<close>

datatype ('c, 's) before_result =
  Abort go_error "'c MiddlewareContext" 's | Proceed "'c MiddlewareContext" 's

record ('c, 's) Middleware =
  mw_before :: "'c MiddlewareContext \<Rightarrow> 's \<Rightarrow> ('c, 's) before_result"
  mw_after ::
    "go_error option \<Rightarrow> 'c MiddlewareContext \<Rightarrow> 's
       \<Rightarrow> go_error option \<times> 'c MiddlewareContext \<times> 's"

type_synonym ('c, 's, 'o) handler =
  "'c MiddlewareContext \<Rightarrow> 's
     \<Rightarrow> go_error option outcome \<times> 'c MiddlewareContext \<times> 's \<times> 'c event list \<times> 'o option"

fun ExecuteMiddleware ::
  "('c, 's) Middleware list \<Rightarrow> ('c, 's, 'o) handler \<Rightarrow> ('c, 's, 'o) handler" where
  "ExecuteMiddleware [] final mctx s = final mctx s"
| "ExecuteMiddleware (m # ms) final mctx s =
     (case mw_before m mctx s of
        Abort e mctx' s' \<Rightarrow> (Returns (Some e), mctx', s', [], None)
      | Proceed mctx' s' \<Rightarrow>
          (case ExecuteMiddleware ms final mctx' s' of
             (Panics p, c, s2, evs, out) \<Rightarrow> (Panics p, c, s2, evs, out)
           | (Returns res, c, s2, evs, out) \<Rightarrow>
               (case mw_after m res c s2 of
                  (res', c', s3) \<Rightarrow> (Returns res', c', s3, evs, out))))"

definition executeQueryMiddleware ::
  "('f, ('c, 's) Middleware) store \<Rightarrow> Repository \<Rightarrow> OperationType \<Rightarrow> nat \<Rightarrow> 'c QueryBuilder
     \<Rightarrow> ('c, 's, 'o) handler \<Rightarrow> 's
     \<Rightarrow> go_error option outcome \<times> 's \<times> 'c event list \<times> 'o option" where
  "executeQueryMiddleware h r op ctx builder final s =
     (case table_of h r of
        Panics p \<Rightarrow> (Panics p, s, [], None)
      | Returns table \<Rightarrow>
          let mctx = \<lparr>mc_Operation = op, mc_TableName = table, mc_QueryBuilder = builder,
                      mc_Query = [], mc_Args = [], mc_Metadata = Map.empty, mc_Context = ctx\<rparr>
          in case ExecuteMiddleware (middlewares h r) final mctx s of
               (res, mctx', s', evs, out) \<Rightarrow> (res, s', EnterPipeline mctx # evs, out))"

text \<open>
  The database and the libraries are parameters of the operations: whether squirrel's
  \<^verbatim>\<open>ToSql\<close> fails on a builder; the answers of \<^verbatim>\<open>SelectContext\<close>, \<^verbatim>\<open>GetContext\<close>
  and \<^verbatim>\<open>ExecContext\<close> (for the last, the error or the result of \<^verbatim>\<open>RowsAffected\<close>,
  itself an error or a number); the rendering of the WHERE conditions that \<^verbatim>\<open>Update\<close>
  asks squirrel for; \<^verbatim>\<open>parsePostgreSQLError\<close>, whose source is not among the files;
  and the loading of one relationship into the records (\<^verbatim>\<open>loadRelationship\<close>, which
  works through functions stored in the relationship metadata), giving an error or
  the records, and the calls it made.
\<close>

record ('c, 's) driver =
  drv_ToSqlError :: "'c QueryBuilder \<Rightarrow> go_error option"
  drv_Select :: "target \<Rightarrow> 'c statement \<Rightarrow> go_error + row list"
  drv_Get :: "target \<Rightarrow> 'c statement \<Rightarrow> go_error + int"
  drv_Exec :: "target \<Rightarrow> 'c statement \<Rightarrow> go_error + (go_error + int)"
  drv_whereToSql :: "'c list \<Rightarrow> go_error + string \<times> go_value list"
  drv_parsePostgreSQLError :: "go_error \<Rightarrow> string \<Rightarrow> string \<Rightarrow> go_error"
  drv_loadRelationship ::
    "'c Query \<Rightarrow> row list \<Rightarrow> 'c include_clause \<Rightarrow> 's
       \<Rightarrow> go_error option \<times> row list \<times> 's \<times> 'c event list"


section \<open>Terminal operations (pkg/storm-orm, query.go)\<close>

text \<open>
  A terminal operation gives its two results (or a panic), the state of the
  middlewares afterwards, and the calls it made. The function literal passed to
  \<^verbatim>\<open>executeQueryMiddleware\<close> asserts the type of the builder in the context (a failed
  assertion panics), renders it, and calls the driver; the variable it assigns
  (\<open>records\<close>, \<open>count\<close>, \<open>rowsAffected\<close>) is the last component of its result, absent
  when it assigned nothing. \<^verbatim>\<open>Count\<close>, \<^verbatim>\<open>Delete\<close> and \<^verbatim>\<open>Update\<close> read
  \<^verbatim>\<open>q.repo.metadata.TableName\<close> before they make any call, every operation reads it
  when it builds an error value, and each of these reads panics on a nil pointer.
\<close>

definition find_final ::
  "('f, 'm) store \<Rightarrow> ('c, 's) driver \<Rightarrow> 'c Query \<Rightarrow> ('c, 's, row list) handler" where
  "find_final h drv q mctx s =
     (case mc_QueryBuilder mctx of
        SelectQ finalQuery \<Rightarrow>
          (case drv_ToSqlError drv (SelectQ finalQuery) of
             Some err \<Rightarrow>
               (with_table h (q_repo q)
                   (\<lambda>table. Some (OrmError ''find'' table (Wrapf ''failed to build query'' err))),
                mctx, s, [], None)
           | None \<Rightarrow>
               (case drv_Select drv (target_of q) (SelectSQL finalQuery) of
                  Inl execErr \<Rightarrow>
                    (with_table h (q_repo q)
                        (\<lambda>table. Some (OrmError ''find'' table (Wrapf ''failed to execute query'' execErr))),
                     mctx, s, [DriverSelect (target_of q) (SelectSQL finalQuery)], None)
                | Inr rows \<Rightarrow>
                    (Returns None, mctx, s,
                     [DriverSelect (target_of q) (SelectSQL finalQuery)], Some rows)))
      | _ \<Rightarrow> (Panics ''interface conversion'', mctx, s, [], None))"

text \<open>\<^verbatim>\<open>Find\<close> on a query without includes.\<close>

definition find_plain ::
  "('f, ('c, 's) Middleware) store \<Rightarrow> ('c, 's) driver \<Rightarrow> 'c Query \<Rightarrow> 's
     \<Rightarrow> (row list \<times> go_error option) outcome \<times> 's \<times> 'c event list" where
  "find_plain h drv q s =
     (case executeQueryMiddleware h (q_repo q) OpQuery (q_ctx q) (SelectQ (find_builder q))
             (find_final h drv q) s of
        (Panics p, s', evs, out) \<Rightarrow> (Panics p, s', evs)
      | (Returns err, s', evs, out) \<Rightarrow>
          (Returns (case out of None \<Rightarrow> [] | Some records \<Rightarrow> records, err), s', evs))"

text \<open>The loop of \<^verbatim>\<open>findWithRelationships\<close> over the includes.\<close>

fun load_includes ::
  "('c, 's) driver \<Rightarrow> 'c Query \<Rightarrow> 'c include_clause list \<Rightarrow> row list \<Rightarrow> 's
     \<Rightarrow> (row list \<times> go_error option) \<times> 's \<times> 'c event list" where
  "load_includes drv q [] records s = ((records, None), s, [])"
| "load_includes drv q (inc # incs) records s =
     (case drv_loadRelationship drv q records inc s of
        (Some err, records', s', evs) \<Rightarrow>
          (([], Some (Wrapf (''failed to load relationship '' @ inc_name inc) err)), s', evs)
      | (None, records', s', evs) \<Rightarrow>
          (case load_includes drv q incs records' s' of
             (res, s'', evs') \<Rightarrow> (res, s'', evs @ evs')))"

text \<open>
  \<^verbatim>\<open>findWithRelationships\<close>: it clears the includes of the query and calls \<^verbatim>\<open>Find\<close>,
  which then takes the branch without includes.
\<close>

definition findWithRelationships ::
  "('f, ('c, 's) Middleware) store \<Rightarrow> ('c, 's) driver \<Rightarrow> 'c Query \<Rightarrow> 's
     \<Rightarrow> (row list \<times> go_error option) outcome \<times> 's \<times> 'c event list" where
  "findWithRelationships h drv q s =
     (let originalIncludes = q_includes q;
          q' = q\<lparr>q_includes := []\<rparr>
      in case find_plain h drv q' s of
           (Panics p, s', evs) \<Rightarrow> (Panics p, s', evs)
         | (Returns (records, Some err), s', evs) \<Rightarrow> (Returns ([], Some err), s', evs)
         | (Returns (records, None), s', evs) \<Rightarrow>
             if length records = 0 then (Returns (records, None), s', evs)
             else
               (case load_includes drv q' originalIncludes records s' of
                  (res, s'', evs') \<Rightarrow> (Returns res, s'', evs @ evs')))"

definition Find ::
  "('f, ('c, 's) Middleware) store \<Rightarrow> ('c, 's) driver \<Rightarrow> 'c Query \<Rightarrow> 's
     \<Rightarrow> (row list \<times> go_error option) outcome \<times> 's \<times> 'c event list" where
  "Find h drv q s =
     (if length (q_includes q) > 0 then findWithRelationships h drv q s
      else find_plain h drv q s)"

definition First ::
  "('f, ('c, 's) Middleware) store \<Rightarrow> ('c, 's) driver \<Rightarrow> 'c Query \<Rightarrow> 's
     \<Rightarrow> (row option \<times> go_error option) outcome \<times> 's \<times> 'c event list" where
  "First h drv q s =
     (case Find h drv (Limit q 1) s of
        (Panics p, s', evs) \<Rightarrow> (Panics p, s', evs)
      | (Returns (records, Some err), s', evs) \<Rightarrow> (Returns (None, Some err), s', evs)
      | (Returns (records, None), s', evs) \<Rightarrow>
          if length records = 0
          then (with_table h (q_repo q)
                  (\<lambda>table. (None, Some (OrmError ''first'' table ErrNotFound))),
                s', evs)
          else (Returns (Some (hd records), None), s', evs))"

definition count_final ::
  "('f, 'm) store \<Rightarrow> ('c, 's) driver \<Rightarrow> 'c Query \<Rightarrow> ('c, 's, int) handler" where
  "count_final h drv q mctx s =
     (case mc_QueryBuilder mctx of
        SelectQ finalQuery \<Rightarrow>
          (case drv_ToSqlError drv (SelectQ finalQuery) of
             Some err \<Rightarrow>
               (with_table h (q_repo q)
                   (\<lambda>table. Some (OrmError ''count'' table (Wrapf ''failed to build count query'' err))),
                mctx, s, [], None)
           | None \<Rightarrow>
               (case drv_Get drv (target_of q) (SelectSQL finalQuery) of
                  Inl execErr \<Rightarrow>
                    (with_table h (q_repo q)
                        (\<lambda>table. Some (OrmError ''count'' table (Wrapf ''failed to execute count query'' execErr))),
                     mctx, s, [DriverGet (target_of q) (SelectSQL finalQuery)], None)
                | Inr n \<Rightarrow>
                    (Returns None, mctx, s,
                     [DriverGet (target_of q) (SelectSQL finalQuery)], Some n)))
      | _ \<Rightarrow> (Panics ''interface conversion'', mctx, s, [], None))"

definition Count ::
  "('f, ('c, 's) Middleware) store \<Rightarrow> ('c, 's) driver \<Rightarrow> 'c Query \<Rightarrow> 's
     \<Rightarrow> (int \<times> go_error option) outcome \<times> 's \<times> 'c event list" where
  "Count h drv q s =
     (case table_of h (q_repo q) of
        Panics p \<Rightarrow> (Panics p, s, [])
      | Returns table \<Rightarrow>
          (case executeQueryMiddleware h (q_repo q) OpQuery (q_ctx q)
                  (SelectQ (count_builder table q)) (count_final h drv q) s of
             (Panics p, s', evs, out) \<Rightarrow> (Panics p, s', evs)
           | (Returns err, s', evs, out) \<Rightarrow>
               (Returns (case out of None \<Rightarrow> 0 | Some count \<Rightarrow> count, err), s', evs)))"

definition Exists ::
  "('f, ('c, 's) Middleware) store \<Rightarrow> ('c, 's) driver \<Rightarrow> 'c Query \<Rightarrow> 's
     \<Rightarrow> (bool \<times> go_error option) outcome \<times> 's \<times> 'c event list" where
  "Exists h drv q s =
     (case Count h drv q s of
        (Panics p, s', evs) \<Rightarrow> (Panics p, s', evs)
      | (Returns (count, Some err), s', evs) \<Rightarrow> (Returns (False, Some err), s', evs)
      | (Returns (count, None), s', evs) \<Rightarrow> (Returns (count > 0, None), s', evs))"

definition delete_final ::
  "('f, 'm) store \<Rightarrow> ('c, 's) driver \<Rightarrow> 'c Query \<Rightarrow> ('c, 's, int) handler" where
  "delete_final h drv q mctx s =
     (case mc_QueryBuilder mctx of
        DeleteQ finalQuery \<Rightarrow>
          (case drv_ToSqlError drv (DeleteQ finalQuery) of
             Some err \<Rightarrow>
               (with_table h (q_repo q)
                   (\<lambda>table. Some (OrmError ''delete'' table (Wrapf ''failed to build delete query'' err))),
                mctx, s, [], None)
           | None \<Rightarrow>
               (case drv_Exec drv (target_of q) (DeleteSQL finalQuery) of
                  Inl err \<Rightarrow>
                    (with_table h (q_repo q)
                        (\<lambda>table. Some (drv_parsePostgreSQLError drv err ''delete'' table)),
                     mctx, s, [DriverExec (target_of q) (DeleteSQL finalQuery)], None)
                | Inr (Inl err) \<Rightarrow>
                    (with_table h (q_repo q)
                        (\<lambda>table. Some (OrmError ''delete'' table (Wrapf ''failed to get rows affected'' err))),
                     mctx, s, [DriverExec (target_of q) (DeleteSQL finalQuery)], None)
                | Inr (Inr n) \<Rightarrow>
                    (Returns None, mctx, s,
                     [DriverExec (target_of q) (DeleteSQL finalQuery)], Some n)))
      | _ \<Rightarrow> (Panics ''interface conversion'', mctx, s, [], None))"

definition Delete ::
  "('f, ('c, 's) Middleware) store \<Rightarrow> ('c, 's) driver \<Rightarrow> 'c Query \<Rightarrow> 's
     \<Rightarrow> (int \<times> go_error option) outcome \<times> 's \<times> 'c event list" where
  "Delete h drv q s =
     (case table_of h (q_repo q) of
        Panics p \<Rightarrow> (Panics p, s, [])
      | Returns table \<Rightarrow>
          (case executeQueryMiddleware h (q_repo q) OpDelete (q_ctx q)
                  (DeleteQ (delete_builder table q)) (delete_final h drv q) s of
             (Panics p, s', evs, out) \<Rightarrow> (Panics p, s', evs)
           | (Returns err, s', evs, out) \<Rightarrow>
               (Returns (case out of None \<Rightarrow> 0 | Some n \<Rightarrow> n, err), s', evs)))"

text \<open>
  The function literal of \<^verbatim>\<open>Update\<close>: it stores the statement and the arguments in
  the context and sends them, whatever the context holds by then.
\<close>

definition update_final ::
  "('f, 'm) store \<Rightarrow> ('c, 's) driver \<Rightarrow> 'c Query \<Rightarrow> string \<Rightarrow> go_value list
     \<Rightarrow> ('c, 's, int) handler" where
  "update_final h drv q baseSQL args mctx s =
     (let mctx' = mctx\<lparr>mc_Query := baseSQL, mc_Args := args\<rparr>
      in case drv_Exec drv (target_of q) (TextSQL baseSQL args) of
           Inl err \<Rightarrow>
             (with_table h (q_repo q)
                 (\<lambda>table. Some (drv_parsePostgreSQLError drv err ''update'' table)),
              mctx', s, [DriverExec (target_of q) (TextSQL baseSQL args)], None)
         | Inr (Inl err) \<Rightarrow>
             (with_table h (q_repo q)
                 (\<lambda>table. Some (OrmError ''update'' table (Wrapf ''failed to get rows affected'' err))),
              mctx', s, [DriverExec (target_of q) (TextSQL baseSQL args)], None)
         | Inr (Inr n) \<Rightarrow>
             (Returns None, mctx', s,
              [DriverExec (target_of q) (TextSQL baseSQL args)], Some n))"

definition Update ::
  "('f, ('c, 's) Middleware) store \<Rightarrow> ('c, 's) driver \<Rightarrow> 'c Query \<Rightarrow> Action list \<Rightarrow> 's
     \<Rightarrow> (int \<times> go_error option) outcome \<times> 's \<times> 'c event list" where
  "Update h drv q actions s =
     (case table_of h (q_repo q) of
        Panics p \<Rightarrow> (Panics p, s, [])
      | Returns table \<Rightarrow>
          (case Update_statement (drv_whereToSql drv) table (q_whereClause q) actions of
             Inl err \<Rightarrow> (Returns (0, Some err), s, [])
           | Inr (baseSQL, args) \<Rightarrow>
               (case executeQueryMiddleware h (q_repo q) OpUpdateMany (q_ctx q) (TextQ baseSQL)
                       (update_final h drv q baseSQL args) s of
                  (Panics p, s', evs, out) \<Rightarrow> (Panics p, s', evs)
                | (Returns err, s', evs, out) \<Rightarrow>
                    (Returns (case out of None \<Rightarrow> 0 | Some n \<Rightarrow> n, err), s', evs))))"




text \<open>
  Vocabulary for the properties of the terminal operations: the context that
  \<^verbatim>\<open>executeQueryMiddleware\<close> builds for an operation of a query on the table \<open>table\<close>,
  the calls of a result, and \<open>entered_with mctx evs\<close>, which says that the first of the
  calls \<open>evs\<close> is the entry into the pipeline with the context \<open>mctx\<close>, so that every
  driver call comes after it. A middleware is \<open>transparent\<close> when its block before
  \<open>next\<close> always goes on with the context it was given and its block after \<open>next\<close>
  hands back the result and the context it was given; its own state may change.
\<close>

definition initial_context ::
  "string \<Rightarrow> 'c Query \<Rightarrow> OperationType \<Rightarrow> 'c QueryBuilder \<Rightarrow> 'c MiddlewareContext" where
  "initial_context table q op builder =
     \<lparr>mc_Operation = op, mc_TableName = table, mc_QueryBuilder = builder,
      mc_Query = [], mc_Args = [], mc_Metadata = Map.empty, mc_Context = q_ctx q\<rparr>"

definition events_of :: "'a \<times> 's \<times> 'c event list \<Rightarrow> 'c event list" where
  "events_of res = snd (snd res)"


definition transparent :: "('c, 's) Middleware \<Rightarrow> bool" where
  "transparent m \<longleftrightarrow>
     (\<forall>mctx s. \<exists>s'. mw_before m mctx s = Proceed mctx s') \<and>
     (\<forall>res mctx s. \<exists>s'. mw_after m res mctx s = (res, mctx, s'))"




section \<open>A database with SQL semantics\<close>

text \<open>
  What \<^verbatim>\<open>Count\<close> and \<^verbatim>\<open>Find\<close> return is what the database answers. To compare the
  two, the database is taken to answer a select statement as SQL prescribes: the rows
  of the FROM clause with its joins (\<open>db_source\<close>), restricted to those on which every
  condition of the WHERE clause holds (\<open>db_holds\<close>); for a statement that selects
  \<^verbatim>\<open>COUNT(*)\<close>, the one row holding their number; otherwise these rows in the order
  of the ORDER BY clause (\<open>db_sorted\<close>); in both cases cut by OFFSET and LIMIT.
  \<^verbatim>\<open>GetContext\<close> scans the single column of the first row into the count. The three
  components of a database are parameters.
\<close>

record 'c database =
  db_source :: "string \<Rightarrow> string list \<Rightarrow> row list"
  db_holds :: "'c \<Rightarrow> row \<Rightarrow> bool"
  db_sorted :: "string list \<Rightarrow> row list \<Rightarrow> row list"






definition users_query :: "nat Query" where
  "users_query =
     \<lparr>q_repo = base_repo,
      q_builder = sq_Select [''id'', ''name''] ''users'',
      q_err = None, q_ctx = 0, q_limit = None, q_offset = None, q_orderBy = [],
      q_whereClause = [], q_tx = None, q_joins = [], q_includes = []\<rparr>"






chapter \<open>Properties\<close>

section \<open>Migration statement splitter\<close>

text \<open>
  What the scanner does for the anonymous form, when it meets the opening \<^verbatim>\<open>$$\<close> with
  its flag off: the quoted text, up to and including the closing \<^verbatim>\<open>$$\<close>, goes into
  the current statement and nothing is emitted.
\<close>

lemma split_loop_inside:
  "dollar_body body \<Longrightarrow>
   split_loop True current statements (body @ ''$$'' @ post) =
   split_loop False (current @ body @ ''$$'') statements post"
proof (induction body arbitrary: current)
  case Nil
  then show ?case by simp
next
  case (Cons c cs)
  then show ?case by (cases cs) auto
qed

lemma split_loop_quoted:
  "dollar_body body \<Longrightarrow>
   split_loop False current statements (''$$'' @ body @ ''$$'' @ post) =
   split_loop False (current @ ''$$'' @ body @ ''$$'') statements post"
  using split_loop_inside [of body "current @ ''$$''" statements post] by simp

lemma split_loop_plain:
  "\<forall>c \<in> set pre. c \<noteq> CHR ''$'' \<and> c \<noteq> CHR '';'' \<Longrightarrow>
   split_loop inq current statements (pre @ rest) =
   split_loop inq (current @ pre) statements rest"
  by (induction pre arbitrary: current) simp_all

lemma splitSQLStatements_one_quoted:
  assumes "dollar_body body" and "\<forall>c \<in> set pre. c \<noteq> CHR ''$'' \<and> c \<noteq> CHR '';''"
  shows "splitSQLStatements (pre @ ''$$'' @ body @ ''$$;'') =
         emit (pre @ ''$$'' @ body @ ''$$;'') []"
proof -
  have "splitSQLStatements (pre @ ''$$'' @ body @ ''$$;'') =
        split_loop False [] [] (pre @ (''$$'' @ body @ ''$$'' @ '';''))"
    by (simp add: splitSQLStatements_def)
  also have "\<dots> = split_loop False pre [] (''$$'' @ body @ ''$$'' @ '';'')"
    using assms(2) split_loop_plain [of pre False "[]" "[]"] by simp
  also have "\<dots> = split_loop False (pre @ ''$$'' @ body @ ''$$'') [] '';''"
    using assms(1) by (rule split_loop_quoted)
  also have "\<dots> = emit (pre @ ''$$'' @ body @ ''$$;'') []"
    by simp
  finally show ?thesis .
qed

text \<open>
  C10. The splitter has no branch for single-quoted literals: the semicolon inside
  \<^verbatim>\<open>'a;b'\<close> is a split point, and the text comes out as two statements.
\<close>

theorem splitSQLStatements_single_quote_split:
  "splitSQLStatements ''INSERT INTO t VALUES ('a;b');'' =
     [''INSERT INTO t VALUES ('a;'', ''b');''] \<and>
   length (splitSQLStatements ''INSERT INTO t VALUES ('a;b');'') > 1"
  by code_simp

text \<open>
  C5. The scanner has one test for a dollar quote, two adjacent dollar signs, and
  none for a tag. In \<^verbatim>\<open>DO $f$ BEGIN SELECT 1; END $f$;\<close> it never sets its flag, so
  the semicolon inside the tagged quote ends a statement and the block comes out in
  two pieces, where the comment above the function promises dollar-quoted strings to
  be handled. The flag is also toggled by a \<^verbatim>\<open>$$\<close> that stands in a line comment, after
  which the semicolons inside the next quoted block are split points; and a statement
  made only of a block comment is returned, \<^verbatim>\<open>isOnlyComments\<close> knowing line comments
  only. The anonymous example of the specification comes out as one statement.
\<close>

theorem splitSQLStatements_tagged_dollar_quote_split:
  "splitSQLStatements ''DO $f$ BEGIN SELECT 1; END $f$;'' =
     [''DO $f$ BEGIN SELECT 1;'', ''END $f$;''] \<and>
   splitSQLStatements (''-- cost in $$'' @ [CHR 0x0A] @ ''DO $$ BEGIN SELECT 1; END $$;'') =
     [''-- cost in $$'' @ [CHR 0x0A] @ ''DO $$ BEGIN SELECT 1;'', ''END $$;''] \<and>
   splitSQLStatements ''SELECT 1; /* end of file */'' = [''SELECT 1;'', ''/* end of file */''] \<and>
   splitSQLStatements ''DO $$ BEGIN SELECT 1; END $$;'' = [''DO $$ BEGIN SELECT 1; END $$;'']"
  by code_simp

section \<open>StringArray\<close>

lemma replace_from_quote:
  "n < 0 \<Longrightarrow> replace_from s [CHR 0x22] [CHR 0x22, CHR 0x22] n = double_quotes s"
  by (induction s arbitrary: n) (simp_all add: double_quotes_def HasPrefix_def)

lemma ReplaceAll_quote: "ReplaceAll s [CHR 0x22] [CHR 0x22, CHR 0x22] = double_quotes s"
  by (simp add: ReplaceAll_def Replace_def replace_from_quote)

lemma parse_loop_escaped:
  "parse_loop result current True (double_quotes x @ rest) =
   parse_loop result (current @ x) True rest"
  by (induction x arbitrary: current) (simp_all add: double_quotes_def)

lemma parse_loop_close:
  "rest = [] \<or> hd rest \<noteq> CHR 0x22 \<Longrightarrow>
   parse_loop result current True (CHR 0x22 # rest) = parse_loop result current False rest"
  by auto

lemma parse_loop_element:
  assumes "rest = [] \<or> hd rest \<noteq> CHR 0x22"
  shows "parse_loop result current False (quote_element x @ rest) =
         parse_loop result (current @ x) False rest"
proof -
  have "parse_loop result current False (quote_element x @ rest) =
        parse_loop result current True (double_quotes x @ (CHR 0x22 # rest))"
    by (simp add: quote_element_def ReplaceAll_quote)
  also have "\<dots> = parse_loop result (current @ x) True (CHR 0x22 # rest)"
    by (rule parse_loop_escaped)
  also have "\<dots> = parse_loop result (current @ x) False rest"
    using assms by (rule parse_loop_close)
  finally show ?thesis .
qed

lemma parse_loop_join:
  "xs \<noteq> [] \<Longrightarrow>
   parse_loop result [] False (Join (map quote_element xs) '','') =
   (result @ butlast xs, last xs)"
proof (induction xs arbitrary: result)
  case Nil
  then show ?case by simp
next
  case (Cons x xs)
  show ?case
  proof (cases xs)
    case Nil
    have "parse_loop result [] False (quote_element x @ []) =
          parse_loop result ([] @ x) False []"
      by (rule parse_loop_element) simp
    with Nil show ?thesis by simp
  next
    case (Cons y ys)
    have "parse_loop result [] False
            (quote_element x @ (CHR '','' # Join (map quote_element xs) '','')) =
          parse_loop result ([] @ x) False (CHR '','' # Join (map quote_element xs) '','')"
      by (rule parse_loop_element) simp
    also have "\<dots> = parse_loop (result @ [x]) [] False (Join (map quote_element xs) '','')"
      by simp
    also have "\<dots> = ((result @ [x]) @ butlast xs, last xs)"
      using Cons by (intro Cons.IH) simp
    finally show ?thesis using Cons by simp
  qed
qed

lemma Join_quoted_nonempty: "xs \<noteq> [] \<Longrightarrow> Join (map quote_element xs) '','' \<noteq> []"
proof (cases xs)
  case Nil
  assume "xs \<noteq> []"
  with Nil show ?thesis by simp
next
  case (Cons x ys)
  then show ?thesis by (cases ys) (simp_all add: quote_element_def)
qed

lemma parseArray_braces:
  assumes "J \<noteq> []"
  shows "parseArray (''{'' @ J @ ''}'') =
         (case parse_loop [] [] False J of
            (result, current) \<Rightarrow>
              Inr (if current \<noteq> [] \<or> result \<noteq> [] then Some (result @ [current])
                   else if result = [] then None else Some result))"
proof -
  have ne: "''{'' @ J @ ''}'' \<noteq> ''{}''" using assms by simp
  have pre: "HasPrefix (''{'' @ J @ ''}'') ''{''" by (simp add: HasPrefix_def)
  have suf: "HasSuffix (''{'' @ J @ ''}'') ''}''" by (simp add: HasSuffix_def)
  have c: "take (length (''{'' @ J @ ''}'') - 1 - 1) (drop 1 (''{'' @ J @ ''}'')) = J"
    by simp
  show ?thesis
    unfolding parseArray_def c
    using ne pre suf assms by (simp split: prod.splits)
qed

lemma parseArray_rendered:
  assumes "xs \<noteq> []"
  shows "parseArray (''{'' @ Join (map quote_element xs) '','' @ ''}'') =
         Inr (if xs = [[]] then None else Some xs)"
proof -
  let ?J = "Join (map quote_element xs) '',''"
  have J: "?J \<noteq> []" using assms by (rule Join_quoted_nonempty)
  have pl: "parse_loop [] [] False ?J = (butlast xs, last xs)"
    using parse_loop_join [OF assms, of "[]"] by simp
  have B: "(if last xs \<noteq> [] \<or> butlast xs \<noteq> [] then Some (butlast xs @ [last xs])
            else if butlast xs = [] then None else Some (butlast xs)) =
           (if xs = [[]] then None else Some xs)"
    using assms by (cases xs rule: rev_cases) auto
  show ?thesis
    by (simp only: parseArray_braces [OF J] pl prod.case B)
qed

text \<open>
  What the round trip computes on every slice: the slice itself, except for the slice
  holding one empty string, which comes back as the nil slice.
\<close>

lemma StringArray_roundtrip:
  "Scan (Value sa) = Inr (if sa = Some [[]] then None else sa)"
proof (cases sa)
  case None
  then show ?thesis by (simp add: Scan_def Value_def)
next
  case (Some xs)
  show ?thesis
  proof (cases "xs = []")
    case True
    with Some show ?thesis by (simp add: Scan_def Value_def parseArray_def)
  next
    case False
    have v: "Value (Some xs) = VString (''{'' @ Join (map quote_element xs) '','' @ ''}'')"
      using False by (simp add: Value_def)
    have s: "Scan (VString (''{'' @ Join (map quote_element xs) '','' @ ''}'')) =
             parseArray (''{'' @ Join (map quote_element xs) '','' @ ''}'')"
      by (simp add: Scan_def)
    have "Scan (Value (Some xs)) = Inr (if xs = [[]] then None else Some xs)"
      by (simp only: v s parseArray_rendered [OF False])
    with Some show ?thesis by simp
  qed
qed

text \<open>
  C6. The round trip fails on the slice holding one empty string: \<^verbatim>\<open>Value\<close> renders
  it as \<^verbatim>\<open>{""}\<close>, and \<^verbatim>\<open>Scan\<close> of that literal appends nothing (the buffer is empty
  and no element was seen before), so the receiver is the nil slice. The other
  values named by the claim behave as it says.
\<close>

theorem StringArray_single_empty_string:
  "Value (Some ['''']) = VString [CHR ''{'', CHR 0x22, CHR 0x22, CHR ''}''] \<and>
   Scan (Value (Some [''''])) = Inr None \<and>
   Scan (Value (Some [''''])) \<noteq> Inr (Some ['''']) \<and>
   Scan (Value (Some ['''', ''a'', ''''])) = Inr (Some ['''', ''a'', '''']) \<and>
   Scan VNil = Inr None \<and> Value None = VNil \<and> Value (Some []) = VString ''{}''"
  by (simp add: StringArray_roundtrip) (simp add: Value_def Scan_def quote_element_def
        ReplaceAll_def Replace_def HasPrefix_def)

section \<open>Rendering of Query.Update\<close>

lemma scalar_loop_numbered:
  "CHR ''?'' \<notin> set seen \<Longrightarrow>
   scalar_loop (seen @ rest) v args n =
   (seen @ number_placeholders rest n, args @ replicate (count_list rest (CHR ''?'')) v,
    n + count_list rest (CHR ''?''))"
proof (induction rest arbitrary: seen args n)
  case Nil
  then have "\<not> Contains seen ''?''" by (simp add: Contains_question)
  then show ?case by (simp add: scalar_loop.simps [of seen])
next
  case (Cons c rest)
  show ?case
  proof (cases "c = CHR ''?''")
    case True
    have ne: "placeholder n \<noteq> ''?''" by (simp add: placeholder_def)
    have r: "Replace (seen @ CHR ''?'' # rest) ''?'' (placeholder n) 1 =
             seen @ placeholder n @ rest"
      using Cons.prems ne by (rule Replace_first)
    have s: "CHR ''?'' \<notin> set (seen @ placeholder n)"
      using Cons.prems placeholder_no_question [of n] by simp
    have "scalar_loop (seen @ CHR ''?'' # rest) v args n =
          scalar_loop (Replace (seen @ CHR ''?'' # rest) ''?'' (placeholder n) 1) v
            (args @ [v]) (n + 1)"
      by (subst scalar_loop.simps) (simp add: Contains_question)
    then have "scalar_loop (seen @ c # rest) v args n =
          scalar_loop ((seen @ placeholder n) @ rest) v (args @ [v]) (n + 1)"
      using True r by simp
    also have "\<dots> = ((seen @ placeholder n) @ number_placeholders rest (n + 1),
                     (args @ [v]) @ replicate (count_list rest (CHR ''?'')) v,
                     (n + 1) + count_list rest (CHR ''?''))"
      using s by (rule Cons.IH)
    finally show ?thesis using True by (simp add: replicate_app_Cons_same)
  next
    case False
    have s: "CHR ''?'' \<notin> set (seen @ [c])" using Cons.prems False by auto
    have "scalar_loop (seen @ c # rest) v args n = scalar_loop ((seen @ [c]) @ rest) v args n"
      by simp
    also have "\<dots> = ((seen @ [c]) @ number_placeholders rest n,
                     args @ replicate (count_list rest (CHR ''?'')) v,
                     n + count_list rest (CHR ''?''))"
      using s by (rule Cons.IH)
    finally show ?thesis using False by simp
  qed
qed

lemma scalar_loop_closed:
  "scalar_loop e v args n =
   (number_placeholders e n, args @ replicate (count_list e (CHR ''?'')) v,
    n + count_list e (CHR ''?''))"
  using scalar_loop_numbered [of "[]" e v args n] by simp

lemma slice_loop_args:
  "slice_loop e vs args n =
   (case slice_loop e vs [] n of (e', args', n') \<Rightarrow> (e', args @ args', n'))"
proof (induction vs arbitrary: e args n)
  case Nil
  show ?case by simp
next
  case (Cons v vs)
  show ?case
    using Cons.IH [of "Replace e ''?'' (placeholder n) 1" "args @ [v]" "n + 1"]
      Cons.IH [of "Replace e ''?'' (placeholder n) 1" "[v]" "n + 1"]
    by (simp split: prod.splits)
qed

lemma render_action_scalar:
  assumes "is_scalar (ActionValue a)"
  shows "render_action (setParts, args, n) a =
         (setParts @ [number_placeholders (Expression a) n],
          args @ replicate (count_list (Expression a) (CHR ''?'')) (ActionValue a),
          n + count_list (Expression a) (CHR ''?''))"
  using assms
  by (cases "ActionValue a")
    (simp_all add: render_action_def is_scalar_def scalar_loop_closed Let_def)

lemma render_action_nil:
  assumes "ActionValue a = VNil"
  shows "render_action (setParts, args, n) a = (setParts @ [Expression a], args, n)"
  using assms by (simp add: render_action_def)

text \<open>
  The loop over the actions only appends to the SET parts and to the arguments: what
  it adds is what it builds from the same counter with both lists empty.
\<close>

lemma render_action_args:
  "render_action (setParts, args, n) a =
   (case render_action ([], [], n) a of
      (parts', args', n') \<Rightarrow> (setParts @ parts', args @ args', n'))"
proof (cases "ActionValue a")
  case (VSlice vs)
  then show ?thesis
    using slice_loop_args [of "Expression a" vs args n]
    by (simp add: render_action_def Let_def split: prod.splits)
qed (simp_all add: render_action_def scalar_loop_closed Let_def)

lemma foldl_render_action_args:
  "foldl render_action (setParts, args, n) actions =
   (case foldl render_action ([], [], n) actions of
      (parts', args', n') \<Rightarrow> (setParts @ parts', args @ args', n'))"
proof (induction actions arbitrary: setParts args n)
  case Nil
  show ?case by simp
next
  case (Cons a actions)
  obtain p1 x1 n1 where r: "render_action ([], [], n) a = (p1, x1, n1)"
    by (metis prod_cases3)
  have r': "render_action (setParts, args, n) a = (setParts @ p1, args @ x1, n1)"
    using render_action_args [of setParts args n a] by (simp add: r)
  show ?case
    using Cons.IH [of "setParts @ p1" "args @ x1" n1] Cons.IH [of p1 x1 n1]
    by (simp add: r r' split: prod.splits)
qed

lemma Update_statement_where_part:
  "Update_statement ToSql table whereClause actions =
     (if length actions = 0
      then Inl (OrmError ''update'' table (Errorf ''no actions provided''))
      else
        (case foldl render_action ([], [], 1) actions of
           (setParts, args, argIndex) \<Rightarrow>
             (case where_part ToSql table whereClause argIndex of
                Inl err \<Rightarrow> Inl err
              | Inr (tail, whereArgs) \<Rightarrow>
                  Inr (''UPDATE '' @ table @ '' SET '' @ Join setParts '', '' @ tail,
                       args @ whereArgs))))"
  by (simp add: Update_statement_def where_part_def Let_def
      split: prod.splits sum.splits)

lemma Update_statement_around:
  assumes "foldl render_action ([], [], 1) pre = (parts0, args0, n0)"
    and "render_action (parts0, args0, n0) a = (parts0 @ [part], args0 @ added, n1)"
    and "foldl render_action ([], [], n1) post = (partsR, argsR, nR)"
    and "where_part ToSql table whereClause nR = Inr (tail, whereArgs)"
  shows "Update_statement ToSql table whereClause (pre @ a # post) =
         Inr (''UPDATE '' @ table @ '' SET '' @ Join (parts0 @ part # partsR) '', '' @ tail,
              args0 @ added @ argsR @ whereArgs)"
proof -
  have "foldl render_action ([], [], 1) (pre @ a # post) =
        foldl render_action (parts0 @ [part], args0 @ added, n1) post"
    using assms(1,2) by simp
  also have "\<dots> = ((parts0 @ [part]) @ partsR, (args0 @ added) @ argsR, nR)"
    using foldl_render_action_args [of "parts0 @ [part]" "args0 @ added" n1 post]
    by (simp add: assms(3))
  finally have l: "foldl render_action ([], [], 1) (pre @ a # post) =
                   (parts0 @ part # partsR, args0 @ added @ argsR, nR)"
    by simp
  show ?thesis
    using l assms(4) by (simp add: Update_statement_where_part)
qed

text \<open>
  C9. Let the actions before an action \<open>a\<close> have left the SET parts \<open>parts0\<close>, the
  arguments \<open>args0\<close> and the counter \<open>n0\<close>, and let the WHERE block succeed. If the
  value of \<open>a\<close> is a scalar and its expression holds \<open>k\<close> question marks, the
  statement that \<^verbatim>\<open>Update\<close> builds has, as the SET part of \<open>a\<close>, its expression with
  the question marks replaced by the placeholders numbered \<open>n0\<close>, ..., \<open>n0 + k - 1\<close>,
  and its arguments hold the value \<open>k\<close> times at the place of \<open>a\<close>; the later actions
  are rendered from the counter \<open>n0 + k\<close>. If the value of \<open>a\<close> is nil, the SET part of
  \<open>a\<close> is its expression as it is, no argument stands for it, and the later actions are
  rendered from the counter \<open>n0\<close>.
\<close>

theorem Update_scalar_action_placeholders:
  assumes "foldl render_action ([], [], 1) pre = (parts0, args0, n0)"
    and "where_part ToSql table whereClause nR = Inr (tail, whereArgs)"
  shows
    "(is_scalar (ActionValue a) \<and>
      foldl render_action ([], [], n0 + count_list (Expression a) (CHR ''?'')) post =
        (partsR, argsR, nR) \<longrightarrow>
        Update_statement ToSql table whereClause (pre @ a # post) =
          Inr (''UPDATE '' @ table @ '' SET '' @
                 Join (parts0 @ number_placeholders (Expression a) n0 # partsR) '', '' @ tail,
               args0 @ replicate (count_list (Expression a) (CHR ''?'')) (ActionValue a) @
                 argsR @ whereArgs)) \<and>
     (ActionValue a = VNil \<and> foldl render_action ([], [], n0) post = (partsR, argsR, nR) \<longrightarrow>
        Update_statement ToSql table whereClause (pre @ a # post) =
          Inr (''UPDATE '' @ table @ '' SET '' @ Join (parts0 @ Expression a # partsR) '', '' @
                 tail,
               args0 @ argsR @ whereArgs))"
proof (intro conjI impI)
  assume h: "is_scalar (ActionValue a) \<and>
             foldl render_action ([], [], n0 + count_list (Expression a) (CHR ''?'')) post =
               (partsR, argsR, nR)"
  have r: "render_action (parts0, args0, n0) a =
           (parts0 @ [number_placeholders (Expression a) n0],
            args0 @ replicate (count_list (Expression a) (CHR ''?'')) (ActionValue a),
            n0 + count_list (Expression a) (CHR ''?''))"
    using h by (intro render_action_scalar) simp
  have p: "foldl render_action ([], [], n0 + count_list (Expression a) (CHR ''?'')) post =
           (partsR, argsR, nR)"
    using h by simp
  show "Update_statement ToSql table whereClause (pre @ a # post) =
          Inr (''UPDATE '' @ table @ '' SET '' @
                 Join (parts0 @ number_placeholders (Expression a) n0 # partsR) '', '' @ tail,
               args0 @ replicate (count_list (Expression a) (CHR ''?'')) (ActionValue a) @
                 argsR @ whereArgs)"
    using Update_statement_around [OF assms(1) r p assms(2)] .
next
  assume h: "ActionValue a = VNil \<and>
             foldl render_action ([], [], n0) post = (partsR, argsR, nR)"
  have r: "render_action (parts0, args0, n0) a = (parts0 @ [Expression a], args0 @ [], n0)"
    using h by (simp add: render_action_nil)
  have p: "foldl render_action ([], [], n0) post = (partsR, argsR, nR)"
    using h by simp
  show "Update_statement ToSql table whereClause (pre @ a # post) =
          Inr (''UPDATE '' @ table @ '' SET '' @ Join (parts0 @ Expression a # partsR) '', '' @
                 tail,
               args0 @ argsR @ whereArgs)"
    using Update_statement_around [OF assms(1) r p assms(2)] by simp
qed

text \<open>
  An instance with three actions and a condition: a scalar with one question mark,
  then a scalar with two (or, in its place, a nil value), then a scalar with one.
\<close>

theorem Update_scalar_action_placeholders_witness:
  "is_scalar (VInt 5) \<and>
   foldl render_action ([], [], 1) [\<lparr>Expression = ''name = ?'', ActionValue = VString ''X''\<rparr>] =
     ([''name = $1''], [VString ''X''], 2) \<and>
   where_part (\<lambda>conds. Inr (''SELECT 1 WHERE (id = $1)'', [VInt 9])) ''users'' [7 :: nat] 5 =
     Inr ('' WHERE (id = $5)'', [VInt 9]) \<and>
   Update_statement (\<lambda>conds. Inr (''SELECT 1 WHERE (id = $1)'', [VInt 9])) ''users'' [7 :: nat]
     [\<lparr>Expression = ''name = ?'', ActionValue = VString ''X''\<rparr>,
      \<lparr>Expression = ''n = GREATEST(n + ?, ?)'', ActionValue = VInt 5\<rparr>,
      \<lparr>Expression = ''b = ?'', ActionValue = VBool True\<rparr>] =
     Inr (''UPDATE users SET name = $1, n = GREATEST(n + $2, $3), b = $4 WHERE (id = $5)'',
          [VString ''X'', VInt 5, VInt 5, VBool True, VInt 9]) \<and>
   Update_statement (\<lambda>conds. Inr (''SELECT 1 WHERE (id = $1)'', [VInt 9])) ''users'' [7 :: nat]
     [\<lparr>Expression = ''name = ?'', ActionValue = VString ''X''\<rparr>,
      \<lparr>Expression = ''n = NULL'', ActionValue = VNil\<rparr>,
      \<lparr>Expression = ''b = ?'', ActionValue = VBool True\<rparr>] =
     Inr (''UPDATE users SET name = $1, n = NULL, b = $2 WHERE (id = $3)'',
          [VString ''X'', VBool True, VInt 9])"
proof -
  let ?ToSql = "\<lambda>conds :: nat list. Inr (''SELECT 1 WHERE (id = $1)'', [VInt 9]) ::
                  go_error + string \<times> go_value list"
  let ?a1 = "\<lparr>Expression = ''name = ?'', ActionValue = VString ''X''\<rparr>"
  let ?a2 = "\<lparr>Expression = ''n = GREATEST(n + ?, ?)'', ActionValue = VInt 5\<rparr>"
  let ?a2' = "\<lparr>Expression = ''n = NULL'', ActionValue = VNil\<rparr>"
  let ?a3 = "\<lparr>Expression = ''b = ?'', ActionValue = VBool True\<rparr>"
  have s: "is_scalar (VInt 5)" by (simp add: is_scalar_def)
  have pre: "foldl render_action ([], [], 1) [?a1] = ([''name = $1''], [VString ''X''], 2)"
    by code_simp
  have w5: "where_part ?ToSql ''users'' [7 :: nat] 5 = Inr ('' WHERE (id = $5)'', [VInt 9])"
    by code_simp
  have w3: "where_part ?ToSql ''users'' [7 :: nat] 3 = Inr ('' WHERE (id = $3)'', [VInt 9])"
    by code_simp
  have h1: "is_scalar (ActionValue ?a2) \<and>
            foldl render_action ([], [], 2 + count_list (Expression ?a2) (CHR ''?'')) [?a3] =
              ([''b = $4''], [VBool True], 5)"
    by code_simp
  have h2: "ActionValue ?a2' = VNil \<and>
            foldl render_action ([], [], 2) [?a3] = ([''b = $2''], [VBool True], 3)"
    by code_simp
  have v1: "(''UPDATE '' @ ''users'' @ '' SET '' @
               Join ([''name = $1''] @ number_placeholders (Expression ?a2) 2 # [''b = $4''])
                 '', '' @ '' WHERE (id = $5)'',
             [VString ''X''] @ replicate (count_list (Expression ?a2) (CHR ''?''))
               (ActionValue ?a2) @ [VBool True] @ [VInt 9]) =
            (''UPDATE users SET name = $1, n = GREATEST(n + $2, $3), b = $4 WHERE (id = $5)'',
             [VString ''X'', VInt 5, VInt 5, VBool True, VInt 9])"
    by code_simp
  have v2: "(''UPDATE '' @ ''users'' @ '' SET '' @
               Join ([''name = $1''] @ Expression ?a2' # [''b = $2'']) '', '' @
               '' WHERE (id = $3)'',
             [VString ''X''] @ [VBool True] @ [VInt 9]) =
            (''UPDATE users SET name = $1, n = NULL, b = $2 WHERE (id = $3)'',
             [VString ''X'', VBool True, VInt 9])"
    by code_simp
  note t1 = Update_scalar_action_placeholders
    [OF pre w5, where a = ?a2 and post = "[?a3]" and partsR = "[''b = $4'']"
       and argsR = "[VBool True]"]
  note t2 = Update_scalar_action_placeholders
    [OF pre w3, where a = ?a2' and post = "[?a3]" and partsR = "[''b = $2'']"
       and argsR = "[VBool True]"]
  note e1 = trans [OF mp [OF conjunct1 [OF t1] h1]
                      arg_cong [where f = "Inr :: _ \<Rightarrow> go_error + _", OF v1]]
  note e2 = trans [OF mp [OF conjunct2 [OF t2] h2]
                      arg_cong [where f = "Inr :: _ \<Rightarrow> go_error + _", OF v2]]
  show ?thesis using s pre w5 e1 e2 by simp
qed

text \<open>
  C1. With one action argument and two WHERE parameters the renumbering collides:
  the first round turns \<^verbatim>\<open>$1\<close> into \<^verbatim>\<open>$2\<close>, the second turns both that \<^verbatim>\<open>$2\<close> and the
  original one into \<^verbatim>\<open>$3\<close>. The statement sent has the arguments
  \<open>[X, 1, 2]\<close> but names \<^verbatim>\<open>$3\<close> twice and \<^verbatim>\<open>$2\<close> never. The example of the
  specification (two action arguments, one WHERE parameter) renders as stated, up to
  the parentheses that squirrel puts around the conditions.
\<close>

theorem Update_where_placeholders_collide:
  "Update_statement
     (\<lambda>conds. Inr (''SELECT 1 WHERE (a = $1 AND b = $2)'', [VInt 1, VInt 2]))
     ''users'' [c1, c2]
     [\<lparr>Expression = ''name = ?'', ActionValue = VString ''X''\<rparr>] =
   Inr (''UPDATE users SET name = $1 WHERE (a = $3 AND b = $3)'',
        [VString ''X'', VInt 1, VInt 2]) \<and>
   Update_statement
     (\<lambda>conds. Inr (''SELECT 1 WHERE (is_active = $1)'', [VBool True]))
     ''users'' [c1]
     [\<lparr>Expression = ''name = ?'', ActionValue = VString ''X''\<rparr>,
      \<lparr>Expression = ''login_count = login_count + ?'', ActionValue = VInt 1\<rparr>] =
   Inr (''UPDATE users SET name = $1, login_count = login_count + $2 WHERE (is_active = $3)'',
        [VString ''X'', VInt 1, VBool True])"
  by code_simp

section \<open>Transactions\<close>

text \<open>
  C4. When a call begins a new transaction (the executor is not a transaction and the
  connection is a \<^verbatim>\<open>*sqlx.DB\<close>) and its own begin succeeds, with \<open>tx\<close>: if the callback
  returns an error, the calls made are the begin and the rollback, with no commit, and
  that very error is returned; if the callback panics, the calls are the begin and the
  rollback, and the panic goes on; if the callback returns nil, the commit is called,
  and its error, if any, is returned wrapped as a commit failure. For
  \<^verbatim>\<open>WithTransaction\<close> the begin is the one without options; for
  \<^verbatim>\<open>WithTransactionOptions\<close> it is the begin with the converted options, the only one
  it makes.
\<close>

theorem WithTransaction_rollback_commit:
  assumes "\<not> isInTransaction s" and "storm_db s = SqlxDB db"
  shows
    "(BeginTxx drv db None = Inr tx \<longrightarrow>
        (fn (newStormWithExecutor db (SqlxTx tx) (storm_logger s)) = Returns (Some e) \<longrightarrow>
           WithTransaction drv s fn = (Returns (Some e), [EvBegin db None, EvRollback tx])) \<and>
        (fn (newStormWithExecutor db (SqlxTx tx) (storm_logger s)) = Panics p \<longrightarrow>
           WithTransaction drv s fn = (Panics p, [EvBegin db None, EvRollback tx])) \<and>
        (fn (newStormWithExecutor db (SqlxTx tx) (storm_logger s)) = Returns None \<longrightarrow>
           WithTransaction drv s fn =
             (case Commit drv tx of
                None \<Rightarrow> (Returns None, [EvBegin db None, EvCommit tx])
              | Some ce \<Rightarrow>
                  (Returns (Some (Wrapf ''failed to commit transaction'' ce)),
                   [EvBegin db None, EvCommit tx, EvRollback tx])))) \<and>
     (BeginTxx drv db (ToTxOptions opts) = Inr tx' \<longrightarrow>
        (fn (newStormWithExecutor db (SqlxTx tx') (storm_logger s)) = Returns (Some e) \<longrightarrow>
           WithTransactionOptions drv s opts fn =
             (Returns (Some e), [EvBegin db (ToTxOptions opts), EvRollback tx'])) \<and>
        (fn (newStormWithExecutor db (SqlxTx tx') (storm_logger s)) = Panics p \<longrightarrow>
           WithTransactionOptions drv s opts fn =
             (Panics p, [EvBegin db (ToTxOptions opts), EvRollback tx'])) \<and>
        (fn (newStormWithExecutor db (SqlxTx tx') (storm_logger s)) = Returns None \<longrightarrow>
           WithTransactionOptions drv s opts fn =
             (case Commit drv tx' of
                None \<Rightarrow> (Returns None, [EvBegin db (ToTxOptions opts), EvCommit tx'])
              | Some ce \<Rightarrow>
                  (Returns (Some (Wrapf ''failed to commit transaction'' ce)),
                   [EvBegin db (ToTxOptions opts), EvCommit tx', EvRollback tx']))))"
  using assms
  by (simp add: WithTransaction_def WithTransactionOptions_def deferred_rollback_def
        split: option.splits)

text \<open>
  An instance with both functions. The driver of the second and fourth calls refuses a
  begin without options and grants one with options, so that only the begin that
  \<^verbatim>\<open>WithTransactionOptions\<close> makes succeeds there.
\<close>

theorem WithTransaction_rollback_commit_witness:
  "WithTransaction
     \<lparr>BeginTxx = (\<lambda>d t. Inr 7), Commit = (\<lambda>t. None), Rollback = (\<lambda>t. None)\<rparr>
     \<lparr>storm_db = SqlxDB 1, storm_executor = SqlxDB 1, storm_logger = None\<rparr>
     (\<lambda>scope. Returns (Some (Errorf ''boom''))) =
     (Returns (Some (Errorf ''boom'')), [EvBegin 1 None, EvRollback 7]) \<and>
   WithTransactionOptions
     \<lparr>BeginTxx = (\<lambda>d t. case t of None \<Rightarrow> Inl (DriverError ''no default'') | Some x \<Rightarrow> Inr 9),
      Commit = (\<lambda>t. None), Rollback = (\<lambda>t. None)\<rparr>
     \<lparr>storm_db = SqlxDB 1, storm_executor = SqlxDB 1, storm_logger = None\<rparr>
     (Some \<lparr>Isolation = 6, ReadOnly = True\<rparr>)
     (\<lambda>scope. Panics ''stop'') =
     (Panics ''stop'',
      [EvBegin 1 (Some \<lparr>TxIsolation = 6, TxReadOnly = True\<rparr>), EvRollback 9]) \<and>
   WithTransaction
     \<lparr>BeginTxx = (\<lambda>d t. Inr 7), Commit = (\<lambda>t. None), Rollback = (\<lambda>t. None)\<rparr>
     \<lparr>storm_db = SqlxDB 1, storm_executor = SqlxDB 1, storm_logger = None\<rparr>
     (\<lambda>scope. Returns None) =
     (Returns None, [EvBegin 1 None, EvCommit 7]) \<and>
   WithTransactionOptions
     \<lparr>BeginTxx = (\<lambda>d t. case t of None \<Rightarrow> Inl (DriverError ''no default'') | Some x \<Rightarrow> Inr 9),
      Commit = (\<lambda>t. Some (DriverError ''conn'')), Rollback = (\<lambda>t. None)\<rparr>
     \<lparr>storm_db = SqlxDB 1, storm_executor = SqlxDB 1, storm_logger = None\<rparr>
     (Some \<lparr>Isolation = 0, ReadOnly = False\<rparr>)
     (\<lambda>scope. Returns None) =
     (Returns (Some (Wrapf ''failed to commit transaction'' (DriverError ''conn''))),
      [EvBegin 1 (Some \<lparr>TxIsolation = 0, TxReadOnly = False\<rparr>), EvCommit 9, EvRollback 9])"
proof -
  let ?ok = "\<lparr>BeginTxx = (\<lambda>d t. Inr 7), Commit = (\<lambda>t. None), Rollback = (\<lambda>t. None)\<rparr>"
  let ?opt = "\<lparr>BeginTxx =
                 (\<lambda>d t. case t of None \<Rightarrow> Inl (DriverError ''no default'') | Some x \<Rightarrow> Inr 9),
               Commit = (\<lambda>t. None), Rollback = (\<lambda>t. None)\<rparr>"
  let ?bad = "\<lparr>BeginTxx =
                 (\<lambda>d t. case t of None \<Rightarrow> Inl (DriverError ''no default'') | Some x \<Rightarrow> Inr 9),
               Commit = (\<lambda>t. Some (DriverError ''conn'')), Rollback = (\<lambda>t. None)\<rparr>"
  let ?s = "\<lparr>storm_db = SqlxDB 1, storm_executor = SqlxDB 1, storm_logger = None\<rparr>"
  have a: "\<not> isInTransaction ?s" by (simp add: isInTransaction_def)
  have b: "storm_db ?s = SqlxDB 1" by simp
  note t1 = WithTransaction_rollback_commit
    [OF a b, where drv = ?ok and tx = 7 and tx' = 7 and opts = None
       and fn = "\<lambda>scope. Returns (Some (Errorf ''boom''))" and e = "Errorf ''boom''"
       and p = "''x''"]
  note t2 = WithTransaction_rollback_commit
    [OF a b, where drv = ?opt and tx = 7 and tx' = 9
       and opts = "Some \<lparr>Isolation = 6, ReadOnly = True\<rparr>"
       and fn = "\<lambda>scope. Panics ''stop''" and e = "Errorf ''boom''" and p = "''stop''"]
  note t3 = WithTransaction_rollback_commit
    [OF a b, where drv = ?ok and tx = 7 and tx' = 7 and opts = None
       and fn = "\<lambda>scope. Returns None" and e = "Errorf ''boom''" and p = "''x''"]
  note t4 = WithTransaction_rollback_commit
    [OF a b, where drv = ?bad and tx = 7 and tx' = 9
       and opts = "Some \<lparr>Isolation = 0, ReadOnly = False\<rparr>"
       and fn = "\<lambda>scope. Returns None" and e = "Errorf ''boom''" and p = "''x''"]
  show ?thesis using t1 t2 t3 t4 by (simp add: ToTxOptions_def)
qed

section \<open>Repository and Authorize\<close>

lemma slice_ok_allocated:
  "store_ok h \<Longrightarrow> slice_ok h s \<Longrightarrow> sl_array s = Some a \<Longrightarrow> a < next_addr h"
proof (rule ccontr)
  assume ok: "store_ok h" and s: "slice_ok h s" and a: "sl_array s = Some a"
  assume "\<not> a < next_addr h"
  then have "func_arrays h a = None" using ok by (simp add: store_ok_def)
  with s a show False by (simp add: slice_ok_def)
qed

lemma length_elems: "slice_ok h s \<Longrightarrow> length (elems h s) = sl_len s"
  by (auto simp: slice_ok_def elems_def split: option.splits)

lemma fresh_array:
  assumes "store_ok h" and "repo_ok h r2"
  shows "sl_array (repo_authorizeFuncs r2) \<noteq> Some (next_addr h)"
proof
  assume "sl_array (repo_authorizeFuncs r2) = Some (next_addr h)"
  then have "next_addr h < next_addr h"
    using assms
    by (intro slice_ok_allocated [of h "repo_authorizeFuncs r2"]) (simp_all add: repo_ok_def)
  then show False by simp
qed

text \<open>What \<^verbatim>\<open>Authorize\<close> returns on a well-formed store, in closed form.\<close>

lemma Authorize_result:
  assumes "store_ok h" and "repo_ok h r"
  shows "Authorize h r fn =
         Some (h\<lparr>func_arrays := (func_arrays h)(next_addr h \<mapsto> authorizeFuncs h r @ [fn]),
                  next_addr := Suc (next_addr h)\<rparr>,
               \<lparr>repo_db = repo_db r,
                repo_metadata = repo_metadata r,
                repo_middlewareManager = repo_middlewareManager r,
                repo_authorizeFuncs =
                  \<lparr>sl_array = Some (next_addr h), sl_len = sl_len (repo_authorizeFuncs r) + 1,
                   sl_cap = sl_len (repo_authorizeFuncs r) + 1\<rparr>\<rparr>)"
proof -
  let ?s = "repo_authorizeFuncs r"
  let ?n = "sl_len ?s"
  have ok: "slice_ok h ?s" using assms(2) by (simp add: repo_ok_def)
  have len: "length (elems h ?s) = ?n" using ok by (rule length_elems)
  have fresh: "sl_array ?s \<noteq> Some (next_addr h)"
    using assms by (rule fresh_array)
  have same: "elems (h\<lparr>func_arrays := (func_arrays h)(next_addr h \<mapsto> replicate (?n + 1) None),
                        next_addr := Suc (next_addr h)\<rparr>) ?s = elems h ?s"
    using fresh by (auto simp: elems_def split: option.splits)
  have d: "drop ?n (replicate (?n + 1) (None :: 'a option)) = [None]"
    by (simp only: drop_replicate) simp
  have upd: "(take ?n (elems h ?s) @ drop ?n (replicate (?n + 1) None))[?n := fn] =
             elems h ?s @ [fn]"
    unfolding d using len by (simp add: list_update_append)
  show ?thesis
    unfolding Authorize_def Let_def make_funcs_def
    using same upd len
    by (simp add: copy_funcs_def store_func_def authorizeFuncs_def Let_def)
qed

lemma authorizeFuncs_after:
  assumes "store_ok h" and "repo_ok h r" and "repo_ok h r2"
  shows "authorizeFuncs (h\<lparr>func_arrays := (func_arrays h)(next_addr h \<mapsto> xs),
                           next_addr := Suc (next_addr h)\<rparr>) r2 = authorizeFuncs h r2"
proof -
  have "sl_array (repo_authorizeFuncs r2) \<noteq> Some (next_addr h)"
    using assms(1,3) by (rule fresh_array)
  then show ?thesis
    by (auto simp: authorizeFuncs_def elems_def split: option.splits)
qed

lemma repo_ok_after:
  assumes "store_ok h" and "repo_ok h r2"
  shows "repo_ok (h\<lparr>func_arrays := (func_arrays h)(next_addr h \<mapsto> xs),
                    next_addr := Suc (next_addr h)\<rparr>) r2"
proof -
  have "sl_array (repo_authorizeFuncs r2) \<noteq> Some (next_addr h)"
    using assms by (rule fresh_array)
  then show ?thesis using assms(2)
    by (auto simp: repo_ok_def slice_ok_def split: option.splits)
qed

lemma store_ok_after:
  assumes "store_ok h"
  shows "store_ok (h\<lparr>func_arrays := (func_arrays h)(next_addr h \<mapsto> xs),
                     next_addr := Suc (next_addr h)\<rparr>)"
  using assms by (auto simp: store_ok_def)

lemma NewRepository_example:
  "NewRepositoryWithExecutor example_store (Some (SqlxDB 1)) (Some 0) =
   Inr (base_store, base_repo)"
  by (simp add: NewRepositoryWithExecutor_def example_store_def make_funcs_def initialize_def
        newMiddlewareManager_def base_store_def base_repo_def numeral_2_eq_2 numeral_3_eq_3)

lemma base_store_ok: "store_ok base_store"
  by (auto simp: store_ok_def base_store_def)

lemma base_repo_ok: "repo_ok base_store base_repo"
  by (simp add: repo_ok_def slice_ok_def base_store_def base_repo_def)

lemma base_manager_ok: "manager_ok base_store base_repo"
  by (simp add: manager_ok_def base_store_def base_repo_def)

text \<open>
  C3. On a well-formed store, \<^verbatim>\<open>r.Authorize(fn)\<close> returns (it does not panic); in the
  store it leaves, the list of \<open>r\<close> is what it was, with the same length; the list of
  the returned repository is the list of \<open>r\<close> with \<open>fn\<close> appended, one longer; and the
  list of every other repository \<open>r2\<close> of the store, such as one made by another chain
  of \<^verbatim>\<open>Authorize\<close> calls from the same base, is what it was: the new list lives in a
  backing array that no repository of the store points to. The store stays
  well-formed, so this holds along every chain.
\<close>

theorem Authorize_appends_to_a_copy:
  assumes "store_ok h" and "repo_ok h r" and "repo_ok h r2"
  shows "case Authorize h r fn of
           None \<Rightarrow> False
         | Some (h', r') \<Rightarrow>
             authorizeFuncs h' r = authorizeFuncs h r \<and>
             length (authorizeFuncs h' r) = length (authorizeFuncs h r) \<and>
             authorizeFuncs h' r' = authorizeFuncs h r @ [fn] \<and>
             length (authorizeFuncs h' r') = length (authorizeFuncs h r) + 1 \<and>
             authorizeFuncs h' r2 = authorizeFuncs h r2 \<and>
             sl_array (repo_authorizeFuncs r') \<noteq> sl_array (repo_authorizeFuncs r2) \<and>
             store_ok h' \<and> repo_ok h' r' \<and> repo_ok h' r2"
proof -
  let ?h' = "h\<lparr>func_arrays := (func_arrays h)(next_addr h \<mapsto> authorizeFuncs h r @ [fn]),
               next_addr := Suc (next_addr h)\<rparr>"
  let ?n = "sl_len (repo_authorizeFuncs r)"
  let ?r' = "\<lparr>repo_db = repo_db r, repo_metadata = repo_metadata r,
              repo_middlewareManager = repo_middlewareManager r,
              repo_authorizeFuncs =
                \<lparr>sl_array = Some (next_addr h), sl_len = ?n + 1, sl_cap = ?n + 1\<rparr>\<rparr>"
  have A: "Authorize h r fn = Some (?h', ?r')"
    using assms(1,2) by (rule Authorize_result)
  have len: "length (authorizeFuncs h r) = ?n"
    using assms(2) by (simp add: authorizeFuncs_def repo_ok_def length_elems)
  have 1: "authorizeFuncs ?h' r = authorizeFuncs h r"
    using assms(1,2,2) by (rule authorizeFuncs_after)
  have 2: "authorizeFuncs ?h' r2 = authorizeFuncs h r2"
    using assms by (rule authorizeFuncs_after)
  have 3: "authorizeFuncs ?h' ?r' = authorizeFuncs h r @ [fn]"
    using len by (simp add: authorizeFuncs_def elems_def)
  have 4: "sl_array (repo_authorizeFuncs ?r') \<noteq> sl_array (repo_authorizeFuncs r2)"
    using fresh_array [OF assms(1,3)] by auto
  have 5: "store_ok ?h'" using assms(1) by (rule store_ok_after)
  have 6: "repo_ok ?h' r2" using assms(1,3) by (rule repo_ok_after)
  have 7: "repo_ok ?h' ?r'" using len by (simp add: repo_ok_def slice_ok_def)
  show ?thesis
    unfolding A using 1 2 3 4 5 6 7 by simp
qed

theorem Authorize_appends_to_a_copy_witness:
  "store_ok (base_store :: (nat, nat) store) \<and>
   repo_ok (base_store :: (nat, nat) store) base_repo \<and>
   (case Authorize (base_store :: (nat, nat) store) base_repo (Some 10) of
      None \<Rightarrow> False
    | Some (h1, rA) \<Rightarrow>
        (case Authorize h1 base_repo (Some 20) of
           None \<Rightarrow> False
         | Some (h2, rB) \<Rightarrow>
             (case Authorize h2 rA (Some 30) of
                None \<Rightarrow> False
              | Some (h3, rC) \<Rightarrow>
                  authorizeFuncs h3 base_repo = [] \<and>
                  authorizeFuncs h3 rA = [Some 10] \<and>
                  authorizeFuncs h3 rB = [Some 20] \<and>
                  authorizeFuncs h3 rC = [Some 10, Some 30])))"
  using Authorize_appends_to_a_copy
    [OF base_store_ok base_repo_ok base_repo_ok, where fn = "Some 10"]
  by (simp add: base_store_ok base_repo_ok)
     (simp add: Authorize_def make_funcs_def copy_funcs_def store_func_def authorizeFuncs_def
        elems_def base_store_def base_repo_def Let_def)

text \<open>
  C8. The repository that \<^verbatim>\<open>Authorize\<close> returns holds the same manager pointer, the
  same executor and the same metadata pointer as the receiver, and differs from it in
  the authorization list only. In every store \<open>k\<close> both therefore run the same
  middleware list, and adding a middleware through one is adding it through the
  other. When the receiver has a manager, a middleware added after the call is
  appended to the list that both run, and the authorization lists stay as they are.
\<close>

theorem Authorize_shares_manager:
  assumes "store_ok h" and "repo_ok h r"
  shows "case Authorize h r fn of
           None \<Rightarrow> False
         | Some (h', r') \<Rightarrow>
             repo_middlewareManager r' = repo_middlewareManager r \<and>
             repo_db r' = repo_db r \<and>
             repo_metadata r' = repo_metadata r \<and>
             r' = r\<lparr>repo_authorizeFuncs := repo_authorizeFuncs r'\<rparr> \<and>
             middlewares k r' = middlewares k r \<and>
             AddMiddleware k r' m = AddMiddleware k r m \<and>
             middlewares h' r = middlewares h r \<and>
             (manager_ok h r \<longrightarrow>
                (case AddMiddleware h' r' m of
                   None \<Rightarrow> False
                 | Some h'' \<Rightarrow>
                     middlewares h'' r = middlewares h r @ [m] \<and>
                     middlewares h'' r' = middlewares h r @ [m] \<and>
                     authorizeFuncs h'' r = authorizeFuncs h r \<and>
                     authorizeFuncs h'' r' = authorizeFuncs h r @ [fn]))"
proof -
  let ?h' = "h\<lparr>func_arrays := (func_arrays h)(next_addr h \<mapsto> authorizeFuncs h r @ [fn]),
               next_addr := Suc (next_addr h)\<rparr>"
  let ?n = "sl_len (repo_authorizeFuncs r)"
  let ?r' = "\<lparr>repo_db = repo_db r, repo_metadata = repo_metadata r,
              repo_middlewareManager = repo_middlewareManager r,
              repo_authorizeFuncs =
                \<lparr>sl_array = Some (next_addr h), sl_len = ?n + 1, sl_cap = ?n + 1\<rparr>\<rparr>"
  have A: "Authorize h r fn = Some (?h', ?r')"
    using assms(1,2) by (rule Authorize_result)
  have len: "length (authorizeFuncs h r) = ?n"
    using assms(2) by (simp add: authorizeFuncs_def repo_ok_def length_elems)
  have f1: "authorizeFuncs ?h' r = authorizeFuncs h r"
    using assms(1,2,2) by (rule authorizeFuncs_after)
  have f2: "authorizeFuncs ?h' ?r' = authorizeFuncs h r @ [fn]"
    using len by (simp add: authorizeFuncs_def elems_def)
  have eq: "?r' = r\<lparr>repo_authorizeFuncs := repo_authorizeFuncs ?r'\<rparr>"
    by simp
  have same: "middlewares k ?r' = middlewares k r" "AddMiddleware k ?r' m = AddMiddleware k r m"
    "middlewares ?h' r = middlewares h r"
    by (simp_all add: middlewares_def AddMiddleware_def split: option.splits)
  have added:
    "case AddMiddleware ?h' ?r' m of
       None \<Rightarrow> False
     | Some h'' \<Rightarrow>
         middlewares h'' r = middlewares h r @ [m] \<and>
         middlewares h'' ?r' = middlewares h r @ [m] \<and>
         authorizeFuncs h'' r = authorizeFuncs h r \<and>
         authorizeFuncs h'' ?r' = authorizeFuncs h r @ [fn]"
    if mo: "manager_ok h r"
  proof -
    obtain a ms where a: "repo_middlewareManager r = Some a" and ms: "managers h a = Some ms"
      using mo by (auto simp: manager_ok_def split: option.splits)
    let ?h'' = "?h'\<lparr>managers := (managers h)(a \<mapsto> ms @ [m])\<rparr>"
    have add: "AddMiddleware ?h' ?r' m = Some ?h''"
      using a ms by (simp add: AddMiddleware_def)
    have m0: "middlewares h r = ms"
      using a ms by (simp add: middlewares_def)
    have m2: "middlewares ?h'' r = ms @ [m]" "middlewares ?h'' ?r' = ms @ [m]"
      using a by (simp_all add: middlewares_def)
    have f3: "authorizeFuncs ?h'' r = authorizeFuncs ?h' r"
      "authorizeFuncs ?h'' ?r' = authorizeFuncs ?h' ?r'"
      by (simp_all add: authorizeFuncs_def elems_def split: option.splits)
    show ?thesis
      unfolding add option.case
      using m0 m2 f1 f2 f3 by simp
  qed
  show ?thesis
    unfolding A option.case prod.case
    using same eq added by simp
qed

theorem Authorize_shares_manager_witness:
  "store_ok (base_store :: (nat, nat) store) \<and>
   repo_ok (base_store :: (nat, nat) store) base_repo \<and>
   manager_ok (base_store :: (nat, nat) store) base_repo \<and>
   (case Authorize (base_store :: (nat, nat) store) base_repo (Some 10) of
      None \<Rightarrow> False
    | Some (h1, rA) \<Rightarrow>
        repo_middlewareManager rA = Some 2 \<and> repo_middlewareManager base_repo = Some 2 \<and>
        (case AddMiddleware h1 rA 7 of
           None \<Rightarrow> False
         | Some h2 \<Rightarrow>
             middlewares h2 base_repo = [7] \<and> middlewares h2 rA = [7] \<and>
             authorizeFuncs h2 base_repo = [] \<and> authorizeFuncs h2 rA = [Some 10]))"
  using Authorize_shares_manager
    [OF base_store_ok base_repo_ok, where fn = "Some 10" and m = 7 and k = base_store and ?'a = nat and ?'b = nat]
  by (simp add: base_store_ok base_repo_ok base_manager_ok)
     (simp add: Authorize_def make_funcs_def copy_funcs_def store_func_def authorizeFuncs_def
        elems_def base_store_def base_repo_def Let_def AddMiddleware_def middlewares_def)

section \<open>Terminal operations\<close>

text \<open>
  The chaining methods leave the repository, the context and the base builder of a query
  as \<^verbatim>\<open>Repository.Query\<close> set them; the example query is the one that
  \<^verbatim>\<open>Repository.Query\<close> makes for the example repository.
\<close>

lemma chaining_keeps_base:
  "q_builder (Where q c) = q_builder q \<and> q_repo (Where q c) = q_repo q \<and>
   q_builder (OrderBy q es) = q_builder q \<and> q_repo (OrderBy q es) = q_repo q \<and>
   q_builder (Limit q n) = q_builder q \<and> q_repo (Limit q n) = q_repo q \<and>
   q_builder (Offset q n) = q_builder q \<and> q_repo (Offset q n) = q_repo q \<and>
   q_builder (QueryJoin q jt t on) = q_builder q \<and> q_repo (QueryJoin q jt t on) = q_repo q \<and>
   q_builder (Include q rels) = q_builder q \<and> q_repo (Include q rels) = q_repo q \<and>
   q_builder (IncludeWhere q rel cs) = q_builder q \<and> q_repo (IncludeWhere q rel cs) = q_repo q \<and>
   q_builder (WithTx q tx) = q_builder q \<and> q_repo (WithTx q tx) = q_repo q"
  by (simp add: Where_def OrderBy_def Limit_def Offset_def QueryJoin_def Include_def
        IncludeWhere_def WithTx_def)

lemma RepositoryQuery_unauthorized:
  assumes "metadata_of h r = Some md" and "authorizeFuncs h r = []"
  shows "RepositoryQuery h r ctx =
         Returns \<lparr>q_repo = r, q_builder = sq_Select (ColumnNames md) (TableName md),
                  q_err = None, q_ctx = ctx, q_limit = None, q_offset = None, q_orderBy = [],
                  q_whereClause = [], q_tx = None, q_joins = [], q_includes = []\<rparr>"
  using assms by (simp add: RepositoryQuery_def)

lemma base_metadata:
  "metadata_of base_store base_repo =
   Some \<lparr>TableName = ''users'', PrimaryKeys = [''id''], ColumnNames = [''id'', ''name'']\<rparr>"
  by (simp add: metadata_of_def base_store_def base_repo_def)

lemma RepositoryQuery_example:
  "RepositoryQuery (base_store :: (nat \<Rightarrow> nat Query \<Rightarrow> nat Query, 'm) store) base_repo 0 =
   Returns users_query"
proof -
  let ?h = "base_store :: (nat \<Rightarrow> nat Query \<Rightarrow> nat Query, 'm) store"
  have a: "authorizeFuncs ?h base_repo = []"
    by (simp add: authorizeFuncs_def elems_def base_store_def base_repo_def)
  show ?thesis
    using RepositoryQuery_unauthorized [OF base_metadata a, of 0]
    by (simp add: users_query_def)
qed

text \<open>
  On a repository whose metadata pointer is nil, every operation that goes through the
  pipeline panics before it makes any call.
\<close>

lemma table_of_nil:
  "metadata_of h r = None \<Longrightarrow>
   table_of h r = Panics ''invalid memory address or nil pointer dereference''"
  by (simp add: table_of_def)

lemma table_of_some: "metadata_of h r = Some md \<Longrightarrow> table_of h r = Returns (TableName md)"
  by (simp add: table_of_def)

lemma find_plain_nil:
  "metadata_of h (q_repo q) = None \<Longrightarrow>
   find_plain h drv q s = (Panics ''invalid memory address or nil pointer dereference'', s, [])"
  by (simp add: find_plain_def executeQueryMiddleware_def table_of_nil)

lemma Find_nil:
  assumes "metadata_of h (q_repo q) = None"
  shows "Find h drv q s =
         (Panics ''invalid memory address or nil pointer dereference'', s, [])"
proof -
  have "find_plain h drv (q\<lparr>q_includes := []\<rparr>) s =
        (Panics ''invalid memory address or nil pointer dereference'', s, [])"
    using assms by (intro find_plain_nil) simp
  moreover have "find_plain h drv q s =
        (Panics ''invalid memory address or nil pointer dereference'', s, [])"
    using assms by (rule find_plain_nil)
  ultimately show ?thesis
    by (simp add: Find_def findWithRelationships_def Let_def)
qed

lemma nil_metadata_panics:
  assumes "metadata_of h (q_repo q) = None"
  shows
    "Find h drv q s = (Panics ''invalid memory address or nil pointer dereference'', s, [])"
    "First h drv q s = (Panics ''invalid memory address or nil pointer dereference'', s, [])"
    "Count h drv q s = (Panics ''invalid memory address or nil pointer dereference'', s, [])"
    "Exists h drv q s = (Panics ''invalid memory address or nil pointer dereference'', s, [])"
    "Delete h drv q s = (Panics ''invalid memory address or nil pointer dereference'', s, [])"
    "Update h drv q actions s =
       (Panics ''invalid memory address or nil pointer dereference'', s, [])"
proof -
  show "Find h drv q s = (Panics ''invalid memory address or nil pointer dereference'', s, [])"
    using assms by (rule Find_nil)
  have "Find h drv (Limit q 1) s =
        (Panics ''invalid memory address or nil pointer dereference'', s, [])"
    using assms by (intro Find_nil) (simp add: Limit_def)
  then show "First h drv q s =
        (Panics ''invalid memory address or nil pointer dereference'', s, [])"
    by (simp add: First_def)
  show c: "Count h drv q s =
        (Panics ''invalid memory address or nil pointer dereference'', s, [])"
    using assms by (simp add: Count_def table_of_nil)
  show "Exists h drv q s =
        (Panics ''invalid memory address or nil pointer dereference'', s, [])"
    by (simp add: Exists_def c)
  show "Delete h drv q s =
        (Panics ''invalid memory address or nil pointer dereference'', s, [])"
    using assms by (simp add: Delete_def table_of_nil)
  show "Update h drv q actions s =
        (Panics ''invalid memory address or nil pointer dereference'', s, [])"
    using assms by (simp add: Update_def table_of_nil)
qed






















text \<open>
  Transparent middlewares hand the result, the context, the calls and the assigned
  variable of the function at the end of the chain through, when these do not depend
  on the state of the middlewares.
\<close>

lemma ExecuteMiddleware_transparent:
  assumes "\<And>t. final mctx t = (res, mctx', t, evs, out)"
  shows "list_all transparent ms \<Longrightarrow>
         \<exists>s'. ExecuteMiddleware ms final mctx s = (res, mctx', s', evs, out)"
proof (induction ms arbitrary: s)
  case Nil
  show ?case by (simp add: assms)
next
  case (Cons m ms)
  from Cons.prems have tm: "transparent m" and tms: "list_all transparent ms"
    by simp_all
  from tm obtain s1 where b: "mw_before m mctx s = Proceed mctx s1"
    unfolding transparent_def by blast
  from Cons.IH [OF tms] obtain s2
    where e: "ExecuteMiddleware ms final mctx s1 = (res, mctx', s2, evs, out)"
    by blast
  show ?case
  proof (cases res)
    case (Returns r)
    from tm obtain s3 where a: "mw_after m r mctx' s2 = (r, mctx', s3)"
      unfolding transparent_def by blast
    show ?thesis using b e a Returns by simp
  next
    case (Panics p)
    show ?thesis using b e Panics by simp
  qed
qed



text \<open>
  \<^verbatim>\<open>Update\<close> sends the statement and the arguments it has built, after entering the
  pipeline with the statement text.
\<close>

lemma Update_sends_statement:
  assumes "metadata_of h (q_repo q) = Some md"
    and "list_all transparent (middlewares h (q_repo q))"
    and "Update_statement (drv_whereToSql drv) (TableName md) (q_whereClause q) actions =
           Inr (baseSQL, args)"
  shows "events_of (Update h drv q actions s) =
         [EnterPipeline (initial_context (TableName md) q OpUpdateMany (TextQ baseSQL)),
          DriverExec (target_of q) (TextSQL baseSQL args)]"
proof -
  let ?mctx = "initial_context (TableName md) q OpUpdateMany (TextQ baseSQL)"
  let ?mctx' = "?mctx\<lparr>mc_Query := baseSQL, mc_Args := args\<rparr>"
  let ?evs = "[DriverExec (target_of q) (TextSQL baseSQL args)]"
  have "\<exists>res out. \<forall>t. update_final h drv q baseSQL args ?mctx t = (res, ?mctx', t, ?evs, out)"
  proof (cases "drv_Exec drv (target_of q) (TextSQL baseSQL args)")
    case (Inl err)
    then show ?thesis by (simp add: update_final_def Let_def)
  next
    case (Inr result)
    then show ?thesis by (cases result) (simp_all add: update_final_def Let_def)
  qed
  then obtain res out
    where fin: "update_final h drv q baseSQL args ?mctx t = (res, ?mctx', t, ?evs, out)" for t
    by blast
  obtain s' where e:
    "ExecuteMiddleware (middlewares h (q_repo q)) (update_final h drv q baseSQL args) ?mctx s =
     (res, ?mctx', s', ?evs, out)"
    using ExecuteMiddleware_transparent [of "update_final h drv q baseSQL args", OF fin assms(2)]
    by blast
  show ?thesis
    using e
    by (cases res)
      (simp_all add: Update_def executeQueryMiddleware_def table_of_some [OF assms(1)] assms(3)
        initial_context_def events_of_def Let_def)
qed








end
